theory Spec2Isabelle
  imports Complex_Main "HOL-Library.AList"
begin

section \<open>The Leneda coordinator: statistic identity and reconciliation\<close>

text \<open>
  The development follows \<^verbatim>\<open>custom_components/leneda/coordinator.py\<close> and
  \<^verbatim>\<open>const.py\<close>. Python names that start with an underscore lose it
  (\<^verbatim>\<open>_prepare_statistics\<close> is \<open>prepare_statistics\<close>). Python floats are
  modelled by the reals, a \<^verbatim>\<open>datetime\<close> by its POSIX timestamp in seconds, and a
  Python string by a list of 8-bit characters (exact for the ASCII identifiers the
  integration handles).
\<close>

subsection \<open>Constants of const.py\<close>

definition DOMAIN :: string where
  "DOMAIN = ''leneda''"

text \<open>\<^verbatim>\<open>datetime(2000, 1, 1, 0, 0, 0, tzinfo=timezone.utc)\<close> as a POSIX timestamp.\<close>

definition STATISTICS_PERIOD_START :: real where
  "STATISTICS_PERIOD_START = 946684800"

text \<open>\<^verbatim>\<open>timedelta(days=1)\<close> and the length of an hourly statistics period, in seconds.\<close>

definition one_day :: real where
  "one_day = 86400"

definition one_hour :: real where
  "one_hour = 3600"

subsection \<open>Statistic identity\<close>

text \<open>\<^verbatim>\<open>str.lower()\<close> on one character: the ASCII capitals move to lower case.\<close>

definition lower_char :: "char \<Rightarrow> char" where
  "lower_char c =
     (if (65::nat) \<le> of_char c \<and> of_char c \<le> (90::nat)
      then char_of (of_char c + (32::nat)) else c)"

definition lower :: "string \<Rightarrow> string" where
  "lower s = map lower_char s"

text \<open>The character class \<^verbatim>\<open>[a-z0-9]\<close>.\<close>

definition is_lower_alnum :: "char \<Rightarrow> bool" where
  "is_lower_alnum c =
     (((97::nat) \<le> of_char c \<and> of_char c \<le> (122::nat)) \<or>
      ((48::nat) \<le> of_char c \<and> of_char c \<le> (57::nat)))"

text \<open>\<^verbatim>\<open>re.sub(r"[^a-z0-9]", "_", s)\<close>: every character outside the class becomes
  an underscore, the others stay.\<close>

definition re_sub_clean :: "string \<Rightarrow> string" where
  "re_sub_clean s = map (\<lambda>c. if is_lower_alnum c then c else CHR ''_'') s"

definition create_statistic_id :: "string \<Rightarrow> string \<Rightarrow> string" where
  "create_statistic_id metering_point obis =
     (let clean_mp = re_sub_clean (lower metering_point);
          clean_obis = re_sub_clean (lower obis)
      in DOMAIN @ '':'' @ clean_mp @ ''_'' @ clean_obis)"

subsection \<open>Data of the reconciliation\<close>

text \<open>A fetched point of \<^verbatim>\<open>aggregated_time_series\<close>: the code reads
  \<^verbatim>\<open>started_at\<close> (through \<^verbatim>\<open>.timestamp()\<close>) and \<^verbatim>\<open>value\<close>.\<close>

record point =
  started_at :: real
  val :: real

text \<open>\<^verbatim>\<open>StatisticData(start=..., state=..., sum=...)\<close>.\<close>

record statistic_data =
  sd_start :: real
  sd_state :: real
  sd_sum :: real

text \<open>A row of the recorder as the statistics queries return it: the keys
  \<^verbatim>\<open>"start"\<close>, \<^verbatim>\<open>"end"\<close> and \<^verbatim>\<open>"sum"\<close> (which may be
  \<^verbatim>\<open>None\<close>).\<close>

record stat_row =
  row_start :: real
  row_end :: real
  row_sum :: "real option"

text \<open>A dictionary from statistic ids to lists of rows, as the recorder queries return it.\<close>

type_synonym stats_dict = "(string \<times> stat_row list) list"

datatype exn =
  UnauthorizedException
  | ForbiddenException
  | MeteringPointNotFoundException
  | IndexError
  | KeyError
  | ConfigEntryAuthFailed

subsection \<open>The reconciliation engine\<close>

text \<open>The test that makes the loop of \<^verbatim>\<open>_prepare_statistics\<close> pass over a point:
  \<^verbatim>\<open>last_stats_time is not None and point.started_at.timestamp() <= last_stats_time\<close>.
  Then the \<^verbatim>\<open>for point in time_series\<close> loop itself, with its three variables: the
  cutoff \<^verbatim>\<open>last_stats_time\<close>, the running \<^verbatim>\<open>last_sum\<close> and the list
  \<^verbatim>\<open>statistics\<close> built by \<^verbatim>\<open>append\<close>.\<close>

definition skip_point :: "real option \<Rightarrow> point \<Rightarrow> bool" where
  "skip_point last_stats_time pt =
     (case last_stats_time of None \<Rightarrow> False | Some t \<Rightarrow> started_at pt \<le> t)"

fun prepare_loop ::
  "real option \<Rightarrow> real \<Rightarrow> statistic_data list \<Rightarrow> point list \<Rightarrow> statistic_data list" where
  "prepare_loop last_stats_time last_sum statistics [] = statistics"
| "prepare_loop last_stats_time last_sum statistics (pt # rest) =
     (if skip_point last_stats_time pt
      then prepare_loop last_stats_time last_sum statistics rest
      else
        (let v = val pt; last_sum' = last_sum + v
         in prepare_loop last_stats_time last_sum'
              (statistics @ [\<lparr>sd_start = started_at pt, sd_state = v, sd_sum = last_sum'\<rparr>])
              rest))"

text \<open>\<^verbatim>\<open>_prepare_statistics\<close>. The cutoff and the initial sum are read from
  \<^verbatim>\<open>existing_stats[statistic_id][0]\<close>, the first row of the list; an empty list there
  raises \<^verbatim>\<open>IndexError\<close>.\<close>

definition prepare_statistics ::
  "string \<Rightarrow> point list \<Rightarrow> stats_dict \<Rightarrow> exn + statistic_data list" where
  "prepare_statistics statistic_id time_series existing_stats =
     (case map_of existing_stats statistic_id of
        None \<Rightarrow> Inr (prepare_loop None 0 [] time_series)
      | Some [] \<Rightarrow> Inl IndexError
      | Some (r # _) \<Rightarrow>
          Inr (prepare_loop (Some (row_end r))
                 (case row_sum r of None \<Rightarrow> 0 | Some s \<Rightarrow> s) [] time_series))"

subsection \<open>The channel catalog of const.py\<close>

text \<open>The members of the library's enumeration \<^verbatim>\<open>ObisCode\<close> that the catalog names.\<close>

datatype ObisCode =
  ELEC_CONSUMPTION_ACTIVE
  | ELEC_CONSUMPTION_REACTIVE
  | ELEC_CONSUMPTION_COVERED_LAYER1
  | ELEC_CONSUMPTION_COVERED_LAYER2
  | ELEC_CONSUMPTION_COVERED_LAYER3
  | ELEC_CONSUMPTION_COVERED_LAYER4
  | ELEC_CONSUMPTION_REMAINING
  | ELEC_PRODUCTION_ACTIVE
  | ELEC_PRODUCTION_REACTIVE
  | ELEC_PRODUCTION_SHARED_LAYER1
  | ELEC_PRODUCTION_SHARED_LAYER2
  | ELEC_PRODUCTION_SHARED_LAYER3
  | ELEC_PRODUCTION_SHARED_LAYER4
  | ELEC_PRODUCTION_REMAINING
  | GAS_CONSUMPTION_VOLUME
  | GAS_CONSUMPTION_STANDARD_VOLUME
  | GAS_CONSUMPTION_ENERGY

datatype SensorDeviceClass = ENERGY | REACTIVE_ENERGY | GAS

datatype SensorStateClass = TOTAL_INCREASING

record SensorTypeConfig =
  obis_code :: ObisCode
  device_class :: "SensorDeviceClass option"
  state_class :: SensorStateClass

definition SENSOR_TYPES :: "(string \<times> SensorTypeConfig) list" where
  "SENSOR_TYPES =
    [(''electricity_consumption_active'',
        \<lparr>obis_code = ELEC_CONSUMPTION_ACTIVE, device_class = Some ENERGY,
         state_class = TOTAL_INCREASING\<rparr>),
     (''electricity_consumption_reactive'',
        \<lparr>obis_code = ELEC_CONSUMPTION_REACTIVE, device_class = Some REACTIVE_ENERGY,
         state_class = TOTAL_INCREASING\<rparr>),
     (''electricity_consumption_covered_layer1'',
        \<lparr>obis_code = ELEC_CONSUMPTION_COVERED_LAYER1, device_class = Some ENERGY,
         state_class = TOTAL_INCREASING\<rparr>),
     (''electricity_consumption_covered_layer2'',
        \<lparr>obis_code = ELEC_CONSUMPTION_COVERED_LAYER2, device_class = Some ENERGY,
         state_class = TOTAL_INCREASING\<rparr>),
     (''electricity_consumption_covered_layer3'',
        \<lparr>obis_code = ELEC_CONSUMPTION_COVERED_LAYER3, device_class = Some ENERGY,
         state_class = TOTAL_INCREASING\<rparr>),
     (''electricity_consumption_covered_layer4'',
        \<lparr>obis_code = ELEC_CONSUMPTION_COVERED_LAYER4, device_class = Some ENERGY,
         state_class = TOTAL_INCREASING\<rparr>),
     (''electricity_consumption_remaining'',
        \<lparr>obis_code = ELEC_CONSUMPTION_REMAINING, device_class = Some ENERGY,
         state_class = TOTAL_INCREASING\<rparr>),
     (''electricity_production_active'',
        \<lparr>obis_code = ELEC_PRODUCTION_ACTIVE, device_class = Some ENERGY,
         state_class = TOTAL_INCREASING\<rparr>),
     (''electricity_production_reactive'',
        \<lparr>obis_code = ELEC_PRODUCTION_REACTIVE, device_class = Some REACTIVE_ENERGY,
         state_class = TOTAL_INCREASING\<rparr>),
     (''electricity_production_shared_layer1'',
        \<lparr>obis_code = ELEC_PRODUCTION_SHARED_LAYER1, device_class = Some ENERGY,
         state_class = TOTAL_INCREASING\<rparr>),
     (''electricity_production_shared_layer2'',
        \<lparr>obis_code = ELEC_PRODUCTION_SHARED_LAYER2, device_class = Some ENERGY,
         state_class = TOTAL_INCREASING\<rparr>),
     (''electricity_production_shared_layer3'',
        \<lparr>obis_code = ELEC_PRODUCTION_SHARED_LAYER3, device_class = Some ENERGY,
         state_class = TOTAL_INCREASING\<rparr>),
     (''electricity_production_shared_layer4'',
        \<lparr>obis_code = ELEC_PRODUCTION_SHARED_LAYER4, device_class = Some ENERGY,
         state_class = TOTAL_INCREASING\<rparr>),
     (''electricity_production_remaining'',
        \<lparr>obis_code = ELEC_PRODUCTION_REMAINING, device_class = Some ENERGY,
         state_class = TOTAL_INCREASING\<rparr>),
     (''gas_consumption_volume'',
        \<lparr>obis_code = GAS_CONSUMPTION_VOLUME, device_class = Some GAS,
         state_class = TOTAL_INCREASING\<rparr>),
     (''gas_consumption_standard_volume'',
        \<lparr>obis_code = GAS_CONSUMPTION_STANDARD_VOLUME, device_class = None,
         state_class = TOTAL_INCREASING\<rparr>),
     (''gas_consumption_energy'',
        \<lparr>obis_code = GAS_CONSUMPTION_ENERGY, device_class = Some ENERGY,
         state_class = TOTAL_INCREASING\<rparr>)]"

subsection \<open>The collaborators: remote service, clock and recorder\<close>

text \<open>One call of \<^verbatim>\<open>client.get_aggregated_metering_data\<close>: metering point, code,
  start, end, granularity and mode.\<close>

record request =
  req_metering_point :: string
  req_obis :: ObisCode
  req_start :: real
  req_end :: real
  req_granularity :: string
  req_mode :: string

text \<open>What a tick is run against and does not change: the remote service (a call either
  raises or returns the \<^verbatim>\<open>aggregated_time_series\<close> of its result), the reading of
  the clock \<^verbatim>\<open>datetime.now()\<close>, the first instant of the current year
  \<^verbatim>\<open>datetime(current_year, 1, 1)\<close>, and the string value of each member of the
  library's \<^verbatim>\<open>ObisCode\<close>, which the repository does not hold.\<close>

record env =
  client :: "request \<Rightarrow> exn + point list"
  now :: real
  year_start :: real
  obis_value :: "ObisCode \<Rightarrow> string"

datatype log_msg =
  UnknownSensorType string string
  | AuthenticationError

text \<open>What a tick changes: the rows the recorder holds for each statistic id (ascending in
  their start), the calls made to the remote service, and the messages logged at error
  level.\<close>

record world =
  recorder :: stats_dict
  requests :: "request list"
  errors_logged :: "log_msg list"

text \<open>The host's recorder is not part of the repository. Its three functions are modelled
  as the code uses them: \<^verbatim>\<open>get_last_statistics(hass, 1, id, ...)\<close> returns the most
  recent row of the series, \<^verbatim>\<open>statistics_during_period(hass, start, None, {id}, "hour",
  None, {"sum"})\<close> returns every hourly row of the series from \<^verbatim>\<open>start\<close> on in
  ascending order of time, and both return an empty dictionary when there is no row.
  \<^verbatim>\<open>async_add_external_statistics\<close> writes each entry as the row of its hour, replacing
  a row that has the same start.\<close>

definition get_last_statistics :: "world \<Rightarrow> string \<Rightarrow> stats_dict" where
  "get_last_statistics w statistic_id =
     (case map_of (recorder w) statistic_id of
        None \<Rightarrow> []
      | Some rows \<Rightarrow> if rows = [] then [] else [(statistic_id, [last rows])])"

definition statistics_during_period :: "world \<Rightarrow> real \<Rightarrow> string \<Rightarrow> stats_dict" where
  "statistics_during_period w start_time statistic_id =
     (case map_of (recorder w) statistic_id of
        None \<Rightarrow> []
      | Some rows \<Rightarrow>
          (let rs = filter (\<lambda>r. start_time \<le> row_start r) rows
           in if rs = [] then [] else [(statistic_id, rs)]))"

fun upsert_row :: "stat_row \<Rightarrow> stat_row list \<Rightarrow> stat_row list" where
  "upsert_row r [] = [r]"
| "upsert_row r (x # xs) =
     (if row_start r = row_start x then r # xs
      else if row_start r < row_start x then r # x # xs
      else x # upsert_row r xs)"

definition row_of :: "statistic_data \<Rightarrow> stat_row" where
  "row_of d = \<lparr>row_start = sd_start d, row_end = sd_start d + one_hour, row_sum = Some (sd_sum d)\<rparr>"

definition async_add_external_statistics ::
  "string \<Rightarrow> statistic_data list \<Rightarrow> world \<Rightarrow> world" where
  "async_add_external_statistics statistic_id statistics w =
     (let old = (case map_of (recorder w) statistic_id of None \<Rightarrow> [] | Some rows \<Rightarrow> rows);
          new = foldl (\<lambda>rows d. upsert_row (row_of d) rows) old statistics
      in w\<lparr>recorder := AList.update statistic_id new (recorder w)\<rparr>)"

subsection \<open>The coordinator\<close>

text \<open>Every function of the coordinator takes the world and returns the world it leaves,
  with either its value or the exception it raised.\<close>

text \<open>\<^verbatim>\<open>_get_statistics_start_date\<close>.\<close>

definition get_statistics_start_date :: "world \<Rightarrow> string \<Rightarrow> exn + real" where
  "get_statistics_start_date w statistic_id =
     (let last_stat = get_last_statistics w statistic_id
      in if last_stat = [] then Inr STATISTICS_PERIOD_START
         else (case map_of last_stat statistic_id of
                 None \<Rightarrow> Inl KeyError
               | Some [] \<Rightarrow> Inl IndexError
               | Some (r # _) \<Rightarrow> Inr (row_end r)))"

text \<open>\<^verbatim>\<open>_fetch_hourly_data\<close>: one hourly call in accumulation mode. No exception is
  caught here.\<close>

definition fetch_hourly_data ::
  "env \<Rightarrow> string \<Rightarrow> ObisCode \<Rightarrow> real \<Rightarrow> real \<Rightarrow> world \<Rightarrow> (exn + point list) \<times> world" where
  "fetch_hourly_data e metering_point obis start_date end_date w =
     (let req = \<lparr>req_metering_point = metering_point, req_obis = obis,
                 req_start = start_date, req_end = end_date,
                 req_granularity = ''Hour'', req_mode = ''Accumulation''\<rparr>
      in (client e req, w\<lparr>requests := requests w @ [req]\<rparr>))"

text \<open>\<^verbatim>\<open>_get_existing_statistics\<close>: every hourly row from
  \<^verbatim>\<open>STATISTICS_PERIOD_START\<close> on.\<close>

definition get_existing_statistics :: "world \<Rightarrow> string \<Rightarrow> stats_dict" where
  "get_existing_statistics w statistic_id =
     statistics_during_period w STATISTICS_PERIOD_START statistic_id"

text \<open>\<^verbatim>\<open>_store_statistics\<close>. The metadata (name, source, unit) that goes with the
  rows changes no row and is not modelled.\<close>

definition store_statistics ::
  "string \<Rightarrow> string \<Rightarrow> ObisCode \<Rightarrow> statistic_data list \<Rightarrow> world \<Rightarrow> world" where
  "store_statistics statistic_id metering_point obis statistics w =
     async_add_external_statistics statistic_id statistics w"

text \<open>\<^verbatim>\<open>_process_and_store_statistics\<close>.\<close>

definition process_and_store_statistics ::
  "string \<Rightarrow> string \<Rightarrow> ObisCode \<Rightarrow> point list \<Rightarrow> world \<Rightarrow> (exn + unit) \<times> world" where
  "process_and_store_statistics statistic_id metering_point obis time_series w =
     (let stats = get_existing_statistics w statistic_id
      in case prepare_statistics statistic_id time_series stats of
           Inl x \<Rightarrow> (Inl x, w)
         | Inr statistics \<Rightarrow>
             if statistics \<noteq> []
             then (Inr (), store_statistics statistic_id metering_point obis statistics w)
             else (Inr (), w))"

text \<open>\<^verbatim>\<open>_update_statistics\<close>.\<close>

definition update_statistics ::
  "env \<Rightarrow> string \<Rightarrow> ObisCode \<Rightarrow> world \<Rightarrow> (exn + unit) \<times> world" where
  "update_statistics e metering_point obis w =
     (let statistic_id = create_statistic_id metering_point (obis_value e obis)
      in case get_statistics_start_date w statistic_id of
           Inl x \<Rightarrow> (Inl x, w)
         | Inr start_date \<Rightarrow>
             (let end_date = now e
              in if end_date - one_day < start_date then (Inr (), w)
                 else
                   (let start_date' = start_date - one_day
                    in case fetch_hourly_data e metering_point obis start_date' end_date w of
                         (Inl x, w') \<Rightarrow> (Inl x, w')
                       | (Inr series, w') \<Rightarrow>
                           if series = [] then (Inr (), w')
                           else process_and_store_statistics statistic_id metering_point
                                  obis series w')))"

text \<open>\<^verbatim>\<open>_get_current_total\<close>: one call of unbounded granularity from the start of
  the year to now; \<^verbatim>\<open>sum\<close> adds the values from the left, starting at 0.\<close>

definition get_current_total ::
  "env \<Rightarrow> string \<Rightarrow> ObisCode \<Rightarrow> world \<Rightarrow> (exn + real option) \<times> world" where
  "get_current_total e metering_point obis w =
     (let req = \<lparr>req_metering_point = metering_point, req_obis = obis,
                 req_start = year_start e, req_end = now e,
                 req_granularity = ''Infinite'', req_mode = ''Accumulation''\<rparr>;
          w' = w\<lparr>requests := requests w @ [req]\<rparr>
      in case client e req of
           Inl x \<Rightarrow> (Inl x, w')
         | Inr series \<Rightarrow>
             if series = [] then (Inr None, w')
             else (Inr (Some (foldl (+) 0 (map val series))), w'))"

text \<open>The dictionary \<^verbatim>\<open>meter_data["values"]\<close>, from codes to live totals.\<close>

type_synonym meter_values = "(ObisCode \<times> real option) list"

text \<open>The loop of \<^verbatim>\<open>_process_metering_point\<close> over \<^verbatim>\<open>selected_sensors\<close>; an
  exception of a callee leaves the loop and the function.\<close>

fun process_sensors ::
  "env \<Rightarrow> string \<Rightarrow> string list \<Rightarrow> meter_values \<Rightarrow> world \<Rightarrow> (exn + meter_values) \<times> world" where
  "process_sensors e metering_point [] vals w = (Inr vals, w)"
| "process_sensors e metering_point (sensor_type # rest) vals w =
     (case map_of SENSOR_TYPES sensor_type of
        None \<Rightarrow>
          process_sensors e metering_point rest vals
            (w\<lparr>errors_logged := errors_logged w @ [UnknownSensorType sensor_type metering_point]\<rparr>)
      | Some cfg \<Rightarrow>
          (let obis = obis_code cfg
           in case update_statistics e metering_point obis w of
                (Inl x, w1) \<Rightarrow> (Inl x, w1)
              | (Inr u, w1) \<Rightarrow>
                  (case get_current_total e metering_point obis w1 of
                     (Inl x, w2) \<Rightarrow> (Inl x, w2)
                   | (Inr current_total, w2) \<Rightarrow>
                       process_sensors e metering_point rest
                         (AList.update obis current_total vals) w2)))"

definition process_metering_point ::
  "env \<Rightarrow> string \<Rightarrow> string list \<Rightarrow> world \<Rightarrow> (exn + meter_values) \<times> world" where
  "process_metering_point e metering_point selected_sensors w =
     process_sensors e metering_point selected_sensors [] w"

text \<open>The dictionary \<^verbatim>\<open>data\<close> of a tick, from metering points to their values, and the
  loop of \<^verbatim>\<open>_async_update_data\<close> over \<^verbatim>\<open>self.metering_points.items()\<close>.\<close>

type_synonym tick_data = "(string \<times> meter_values) list"

fun update_loop ::
  "env \<Rightarrow> (string \<times> string list) list \<Rightarrow> tick_data \<Rightarrow> world \<Rightarrow> (exn + tick_data) \<times> world" where
  "update_loop e [] data w = (Inr data, w)"
| "update_loop e ((metering_point, selected_sensors) # rest) data w =
     (case process_metering_point e metering_point selected_sensors w of
        (Inl x, w') \<Rightarrow> (Inl x, w')
      | (Inr meter_data, w') \<Rightarrow>
          update_loop e rest (AList.update metering_point meter_data data) w')"

text \<open>\<^verbatim>\<open>_async_update_data\<close>: only \<^verbatim>\<open>UnauthorizedException\<close> is caught, logged and
  raised again as \<^verbatim>\<open>ConfigEntryAuthFailed\<close>; any other exception leaves the function
  as it is.\<close>

definition async_update_data ::
  "env \<Rightarrow> (string \<times> string list) list \<Rightarrow> world \<Rightarrow> (exn + tick_data) \<times> world" where
  "async_update_data e metering_points w =
     (case update_loop e metering_points [] w of
        (Inl x, w') \<Rightarrow>
          if x = UnauthorizedException
          then (Inl ConfigEntryAuthFailed,
                w'\<lparr>errors_logged := errors_logged w' @ [AuthenticationError]\<rparr>)
          else (Inl x, w')
      | (Inr data, w') \<Rightarrow> (Inr data, w'))"

subsection \<open>The specification's words, for comparison\<close>

text \<open>The reconciliation algorithm as the specification words it: the running sum starts
  at the last stored cumulative sum (0 when absent); a point whose period start is at or
  before the given last stored timestamp is discarded; any other point adds its value to
  the running sum and is emitted with it.\<close>

fun spec_emit :: "real option \<Rightarrow> real \<Rightarrow> point list \<Rightarrow> statistic_data list" where
  "spec_emit last_time running_sum [] = []"
| "spec_emit last_time running_sum (p # ps) =
     (if (case last_time of None \<Rightarrow> False | Some t \<Rightarrow> started_at p \<le> t)
      then spec_emit last_time running_sum ps
      else \<lparr>sd_start = started_at p, sd_state = val p, sd_sum = running_sum + val p\<rparr>
           # spec_emit last_time (running_sum + val p) ps)"

definition spec_reconcile ::
  "real option \<Rightarrow> real option \<Rightarrow> point list \<Rightarrow> statistic_data list" where
  "spec_reconcile last_time last_sum pts =
     spec_emit last_time (case last_sum of None \<Rightarrow> 0 | Some s \<Rightarrow> s) pts"

text \<open>The baseline of the fetch window planner as the specification words it: the end of
  the most recent stored entry of the series, or the fixed epoch when nothing is stored.\<close>

definition spec_baseline :: "world \<Rightarrow> string \<Rightarrow> real" where
  "spec_baseline w statistic_id =
     (case map_of (recorder w) statistic_id of
        None \<Rightarrow> STATISTICS_PERIOD_START
      | Some rows \<Rightarrow> if rows = [] then STATISTICS_PERIOD_START else row_end (last rows))"

text \<open>The calls to the remote service made between two worlds.\<close>

definition new_requests :: "world \<Rightarrow> world \<Rightarrow> request list" where
  "new_requests w w' = drop (length (requests w)) (requests w')"

text \<open>The exception a result carries, if any, and what a run of calls to the remote
  service looks like when the first call that raises ends it: every call but the last
  returned, and the last raised the exception, or, with no exception, every call
  returned.\<close>

definition raised :: "exn + 'a \<Rightarrow> exn option" where
  "raised res = (case res of Inl x \<Rightarrow> Some x | Inr v \<Rightarrow> None)"

definition returned :: "env \<Rightarrow> request \<Rightarrow> bool" where
  "returned e q = (case client e q of Inl x \<Rightarrow> False | Inr pts \<Rightarrow> True)"

definition trace_ok :: "env \<Rightarrow> exn option \<Rightarrow> request list \<Rightarrow> bool" where
  "trace_ok e x rs =
     (case x of
        None \<Rightarrow> list_all (returned e) rs
      | Some y \<Rightarrow> rs \<noteq> [] \<and> list_all (returned e) (butlast rs) \<and> client e (last rs) = Inl y)"

text \<open>The statistic identity as the specification words it: both inputs are lower-cased,
  every character outside \<open>[a-z0-9]\<close> is replaced by an underscore, and the result is
  the namespace, a colon, the metering point, an underscore and the code. The alphabets
  are written out.\<close>

definition spec_lower_char :: "char \<Rightarrow> char" where
  "spec_lower_char c =
     (case map_of (zip ''ABCDEFGHIJKLMNOPQRSTUVWXYZ'' ''abcdefghijklmnopqrstuvwxyz'') c of
        None \<Rightarrow> c
      | Some l \<Rightarrow> l)"

definition spec_clean_char :: "char \<Rightarrow> char" where
  "spec_clean_char c =
     (if c \<in> set ''abcdefghijklmnopqrstuvwxyz0123456789'' then c else CHR ''_'')"

definition spec_identity :: "string \<Rightarrow> string \<Rightarrow> string \<Rightarrow> string" where
  "spec_identity namespace metering_point code =
     namespace @ '':'' @ map (\<lambda>c. spec_clean_char (spec_lower_char c)) metering_point
       @ ''_'' @ map (\<lambda>c. spec_clean_char (spec_lower_char c)) code"

text \<open>What a run of calls to the remote service leaves in the recorder when every hourly
  call that returned points is reconciled and stored, in the order of the calls, and
  nothing else touches the recorder: a call that raised, that returned no point or that
  asked for the live total changes nothing.\<close>

definition store_only :: "stats_dict \<Rightarrow> world" where
  "store_only d = \<lparr>recorder = d, requests = [], errors_logged = []\<rparr>"

definition reconcile_call :: "env \<Rightarrow> stats_dict \<Rightarrow> request \<Rightarrow> stats_dict" where
  "reconcile_call e d q =
     (case client e q of
        Inl x \<Rightarrow> d
      | Inr series \<Rightarrow>
          if req_granularity q = ''Hour'' \<and> series \<noteq> []
          then recorder (snd (process_and_store_statistics
                 (create_statistic_id (req_metering_point q) (obis_value e (req_obis q)))
                 (req_metering_point q) (req_obis q) series (store_only d)))
          else d)"

definition replay :: "env \<Rightarrow> request list \<Rightarrow> stats_dict \<Rightarrow> stats_dict" where
  "replay e rs d = foldl (reconcile_call e) d rs"

text \<open>The messages a tick may log for the identifiers of its configuration that the
  catalog does not hold: the message names such an identifier and its metering point.\<close>

definition logged_unknown :: "string \<Rightarrow> string list \<Rightarrow> log_msg \<Rightarrow> bool" where
  "logged_unknown metering_point selected_sensors m =
     (case m of
        UnknownSensorType s mp \<Rightarrow>
          mp = metering_point \<and> s \<in> set selected_sensors \<and> map_of SENSOR_TYPES s = None
      | AuthenticationError \<Rightarrow> False)"

definition unknown_message :: "(string \<times> string list) list \<Rightarrow> log_msg \<Rightarrow> bool" where
  "unknown_message metering_points m =
     list_ex (\<lambda>(metering_point, selected_sensors).
       logged_unknown metering_point selected_sensors m) metering_points"

text \<open>The messages logged between two worlds.\<close>

definition new_errors :: "world \<Rightarrow> world \<Rightarrow> log_msg list" where
  "new_errors w w' = drop (length (errors_logged w)) (errors_logged w')"

subsection \<open>Sample inputs\<close>

text \<open>A world with nothing stored, called or logged; string values for two codes; and an
  environment around a given remote service, with the clock at 1700100000 and the year
  starting at 1672531200.\<close>

definition empty_world :: world where
  "empty_world = \<lparr>recorder = [], requests = [], errors_logged = []\<rparr>"

definition sample_obis_value :: "ObisCode \<Rightarrow> string" where
  "sample_obis_value obis =
     (if obis = ELEC_CONSUMPTION_ACTIVE then ''1-1:1.29.0'' else ''1-1:3.29.0'')"

definition sample_env :: "(request \<Rightarrow> exn + point list) \<Rightarrow> real \<Rightarrow> env" where
  "sample_env c t =
     \<lparr>client = c, now = t, year_start = 1672531200, obis_value = sample_obis_value\<rparr>"

section \<open>Properties\<close>

subsection \<open>The loop of the reconciliation engine\<close>

lemma prepare_loop_acc:
  "prepare_loop c s acc ps = acc @ prepare_loop c s [] ps"
proof (induction ps arbitrary: s acc)
  case Nil
  show ?case by simp
next
  case (Cons p ps)
  show ?case
  proof (cases "skip_point c p")
    case True
    then show ?thesis using Cons.IH [of s acc] by simp
  next
    case False
    let ?d = "\<lparr>sd_start = started_at p, sd_state = val p, sd_sum = s + val p\<rparr>"
    have "prepare_loop c s acc (p # ps) = prepare_loop c (s + val p) (acc @ [?d]) ps"
      using False by (simp add: Let_def)
    also have "\<dots> = (acc @ [?d]) @ prepare_loop c (s + val p) [] ps"
      by (rule Cons.IH)
    also have "\<dots> = acc @ ([?d] @ prepare_loop c (s + val p) [] ps)"
      by simp
    also have "[?d] @ prepare_loop c (s + val p) [] ps = prepare_loop c (s + val p) [?d] ps"
      by (rule Cons.IH [symmetric])
    also have "prepare_loop c (s + val p) [?d] ps = prepare_loop c s [] (p # ps)"
      using False by (simp add: Let_def)
    finally show ?thesis .
  qed
qed

lemma prepare_loop_skip:
  "skip_point c p \<Longrightarrow> prepare_loop c s [] (p # ps) = prepare_loop c s [] ps"
  by simp

lemma prepare_loop_take:
  "\<not> skip_point c p \<Longrightarrow>
   prepare_loop c s [] (p # ps) =
     \<lparr>sd_start = started_at p, sd_state = val p, sd_sum = s + val p\<rparr>
       # prepare_loop c (s + val p) [] ps"
  using prepare_loop_acc [of c "s + val p"
      "[\<lparr>sd_start = started_at p, sd_state = val p, sd_sum = s + val p\<rparr>]" ps]
  by (simp add: Let_def)

lemma prepare_loop_spec_emit: "prepare_loop c s [] ps = spec_emit c s ps"
proof (induction ps arbitrary: s)
  case Nil
  show ?case by simp
next
  case (Cons p ps)
  show ?case
  proof (cases "skip_point c p")
    case True
    then show ?thesis using Cons.IH by (simp add: skip_point_def)
  next
    case False
    then show ?thesis
      using Cons.IH prepare_loop_take [OF False] by (simp add: skip_point_def)
  qed
qed

lemma prepare_loop_starts:
  "map sd_start (prepare_loop c s [] ps) =
     map started_at (filter (\<lambda>p. \<not> skip_point c p) ps)"
  by (induction ps arbitrary: s)
    (simp_all add: prepare_loop_take prepare_loop_skip del: prepare_loop.simps(2))

lemma prepare_loop_states:
  "map sd_state (prepare_loop c s [] ps) = map val (filter (\<lambda>p. \<not> skip_point c p) ps)"
  by (induction ps arbitrary: s)
    (simp_all add: prepare_loop_take prepare_loop_skip del: prepare_loop.simps(2))

lemma prepare_loop_length:
  "length (prepare_loop c s [] ps) = length (filter (\<lambda>p. \<not> skip_point c p) ps)"
  using prepare_loop_starts [of c s ps] by (metis length_map)

lemma prepare_loop_sums:
  "i < length (prepare_loop c s [] ps) \<Longrightarrow>
   sd_sum (prepare_loop c s [] ps ! i) =
     s + sum_list (map val (take (Suc i) (filter (\<lambda>p. \<not> skip_point c p) ps)))"
proof (induction ps arbitrary: s i)
  case Nil
  then show ?case by simp
next
  case (Cons p ps)
  show ?case
  proof (cases "skip_point c p")
    case True
    then show ?thesis using Cons by simp
  next
    case False
    note eq = prepare_loop_take [OF False, of s ps]
    show ?thesis
    proof (cases i)
      case 0
      then show ?thesis using False eq by simp
    next
      case (Suc j)
      have "j < length (prepare_loop c (s + val p) [] ps)"
        using Cons.prems Suc eq by simp
      from Cons.IH [OF this] show ?thesis using False eq Suc by (simp add: add.assoc)
    qed
  qed
qed

subsection \<open>Statistic identity\<close>

lemma re_sub_clean_chars:
  "list_all (\<lambda>c. is_lower_alnum c \<or> c = CHR ''_'') (re_sub_clean s)"
  by (induction s) (simp_all add: re_sub_clean_def)

lemma re_sub_clean_no_colon: "count_list (re_sub_clean s) CHR '':'' = 0"
  by (induction s) (auto simp: re_sub_clean_def is_lower_alnum_def)

lemma list_all_weaken: "list_all P xs \<Longrightarrow> (\<And>x. P x \<Longrightarrow> Q x) \<Longrightarrow> list_all Q xs"
  by (induction xs) auto

lemma char_of_lower_case:
  "char_of (97::nat) = CHR ''a''" "char_of (98::nat) = CHR ''b''"
  "char_of (99::nat) = CHR ''c''" "char_of (100::nat) = CHR ''d''"
  "char_of (101::nat) = CHR ''e''" "char_of (102::nat) = CHR ''f''"
  "char_of (103::nat) = CHR ''g''" "char_of (104::nat) = CHR ''h''"
  "char_of (105::nat) = CHR ''i''" "char_of (106::nat) = CHR ''j''"
  "char_of (107::nat) = CHR ''k''" "char_of (108::nat) = CHR ''l''"
  "char_of (109::nat) = CHR ''m''" "char_of (110::nat) = CHR ''n''"
  "char_of (111::nat) = CHR ''o''" "char_of (112::nat) = CHR ''p''"
  "char_of (113::nat) = CHR ''q''" "char_of (114::nat) = CHR ''r''"
  "char_of (115::nat) = CHR ''s''" "char_of (116::nat) = CHR ''t''"
  "char_of (117::nat) = CHR ''u''" "char_of (118::nat) = CHR ''v''"
  "char_of (119::nat) = CHR ''w''" "char_of (120::nat) = CHR ''x''"
  "char_of (121::nat) = CHR ''y''" "char_of (122::nat) = CHR ''z''"
  by code_simp+

lemma lower_char_spec: "lower_char c = spec_lower_char c"
  by (cases c) (simp add: lower_char_def spec_lower_char_def char_of_lower_case)

lemma is_lower_alnum_spec:
  "is_lower_alnum c \<longleftrightarrow> c \<in> set ''abcdefghijklmnopqrstuvwxyz0123456789''"
  by (cases c) (simp add: is_lower_alnum_def)

lemma create_statistic_id_spec:
  "create_statistic_id metering_point obis = spec_identity ''leneda'' metering_point obis"
  by (simp add: create_statistic_id_def DOMAIN_def Let_def spec_identity_def re_sub_clean_def
      lower_def lower_char_spec is_lower_alnum_spec spec_clean_char_def comp_def)

lemma spec_identity_example:
  "spec_identity ''leneda'' ''Lu-000001'' ''1-1:1.29.0'' = ''leneda:lu_000001_1_1_1_29_0''"
  by (simp add: spec_identity_def spec_clean_char_def spec_lower_char_def)

text \<open>
  Claim C7. The statistic identity is a function of the pair (metering point, code), and
  it is the identity the specification words: both inputs lower-cased, every character
  outside \<open>[a-z0-9]\<close> replaced by an underscore, joined as the namespace
  \<open>leneda\<close>, a colon, the metering point, an underscore and the code. Cleaning keeps
  the length of each input. Every character of the identity is a lower-case letter, a
  digit, an underscore or a colon, and the colon occurs exactly once.
\<close>

theorem create_statistic_id_identity:
  "create_statistic_id metering_point obis = spec_identity ''leneda'' metering_point obis
   \<and> create_statistic_id metering_point obis =
     ''leneda:'' @ re_sub_clean (lower metering_point) @ ''_'' @ re_sub_clean (lower obis)
   \<and> length (re_sub_clean (lower metering_point)) = length metering_point
   \<and> length (re_sub_clean (lower obis)) = length obis
   \<and> list_all (\<lambda>c. c \<in> set ''abcdefghijklmnopqrstuvwxyz0123456789_:'')
        (create_statistic_id metering_point obis)
   \<and> list_all (\<lambda>c. is_lower_alnum c \<or> c = CHR ''_'' \<or> c = CHR '':'')
        (create_statistic_id metering_point obis)
   \<and> count_list (create_statistic_id metering_point obis) CHR '':'' = 1"
proof -
  let ?ok = "\<lambda>c. is_lower_alnum c \<or> c = CHR ''_'' \<or> c = CHR '':''"
  let ?in = "\<lambda>c. c \<in> set ''abcdefghijklmnopqrstuvwxyz0123456789_:''"
  have shape: "create_statistic_id metering_point obis =
     ''leneda:'' @ re_sub_clean (lower metering_point) @ ''_'' @ re_sub_clean (lower obis)"
    by (simp add: create_statistic_id_def DOMAIN_def Let_def)
  have len: "length (re_sub_clean (lower s)) = length s" for s
    by (simp add: re_sub_clean_def lower_def)
  have ok: "list_all ?ok (re_sub_clean s)" for s
    by (rule list_all_weaken [OF re_sub_clean_chars]) blast
  have pre: "list_all ?ok ''leneda:''"
    by (simp add: is_lower_alnum_def)
  have chars: "list_all ?ok (create_statistic_id metering_point obis)"
    unfolding shape using ok pre by simp
  have "?ok c \<Longrightarrow> ?in c" for c
    unfolding is_lower_alnum_spec by auto
  then have chars': "list_all ?in (create_statistic_id metering_point obis)"
    by (rule list_all_weaken [OF chars])
  have colon: "count_list (create_statistic_id metering_point obis) CHR '':'' = 1"
    unfolding shape by (simp add: re_sub_clean_no_colon)
  show ?thesis using create_statistic_id_spec shape len chars chars' colon by blast
qed

subsection \<open>Cumulative sums\<close>

text \<open>
  Claim C6. When every fetched value is non-negative, the cumulative sums the loop of the
  reconciliation engine emits never decrease, starting from the initial sum; the state
  values emitted are the values of the accepted points, in order; and each emitted sum is
  the initial sum plus the state values of the entries up to and including its own.
\<close>

theorem monotonic_cumulative_sum:
  assumes "\<forall>p \<in> set time_series. 0 \<le> val p"
  shows "sorted (last_sum # map sd_sum (prepare_loop last_stats_time last_sum [] time_series))
    \<and> map sd_state (prepare_loop last_stats_time last_sum [] time_series) =
        map val (filter (\<lambda>p. \<not> skip_point last_stats_time p) time_series)
    \<and> (\<forall>i < length (prepare_loop last_stats_time last_sum [] time_series).
          sd_sum (prepare_loop last_stats_time last_sum [] time_series ! i) =
            last_sum + sum_list (map sd_state
              (take (Suc i) (prepare_loop last_stats_time last_sum [] time_series))))"
proof -
  let ?c = last_stats_time
  have mono: "sorted (s # map sd_sum (prepare_loop ?c s [] ps))"
    if "\<forall>p \<in> set ps. 0 \<le> val p" for s ps
    using that
  proof (induction ps arbitrary: s)
    case Nil
    show ?case by simp
  next
    case (Cons p ps)
    show ?case
    proof (cases "skip_point ?c p")
      case True
      then show ?thesis using Cons by (simp add: prepare_loop_skip del: prepare_loop.simps(2))
    next
      case False
      have "sorted ((s + val p) # map sd_sum (prepare_loop ?c (s + val p) [] ps))"
        using Cons by simp
      moreover have "s \<le> s + val p" using Cons.prems by simp
      ultimately have
        "sorted (s # (s + val p) # map sd_sum (prepare_loop ?c (s + val p) [] ps))"
        by auto
      then show ?thesis using prepare_loop_take [OF False, of s ps] by simp
    qed
  qed
  have sums: "sd_sum (prepare_loop ?c last_sum [] time_series ! i) =
      last_sum + sum_list (map sd_state (take (Suc i) (prepare_loop ?c last_sum [] time_series)))"
    if "i < length (prepare_loop ?c last_sum [] time_series)" for i
  proof -
    have "map sd_state (take (Suc i) (prepare_loop ?c last_sum [] time_series)) =
        map val (take (Suc i) (filter (\<lambda>p. \<not> skip_point ?c p) time_series))"
      by (simp add: take_map [symmetric] prepare_loop_states)
    then show ?thesis using prepare_loop_sums [OF that] by simp
  qed
  show ?thesis using mono [OF assms] prepare_loop_states sums by blast
qed

theorem monotonic_cumulative_sum_witness:
  "sorted (10 # map sd_sum (prepare_loop (Some 3600) 10 []
        [\<lparr>started_at = 3600, val = 1\<rparr>, \<lparr>started_at = 7200, val = 3 / 2\<rparr>,
         \<lparr>started_at = 10800, val = 2\<rparr>]))
   \<and> map sd_sum (prepare_loop (Some 3600) 10 []
        [\<lparr>started_at = 3600, val = 1\<rparr>, \<lparr>started_at = 7200, val = 3 / 2\<rparr>,
         \<lparr>started_at = 10800, val = 2\<rparr>]) = [23 / 2, 27 / 2]
   \<and> map sd_state (prepare_loop (Some 3600) 10 []
        [\<lparr>started_at = 3600, val = 1\<rparr>, \<lparr>started_at = 7200, val = 3 / 2\<rparr>,
         \<lparr>started_at = 10800, val = 2\<rparr>]) = [3 / 2, 2]"
proof -
  have h: "\<forall>p \<in> set [\<lparr>started_at = 3600, val = 1\<rparr>, \<lparr>started_at = 7200, val = 3 / 2\<rparr>,
                 \<lparr>started_at = 10800, val = 2::real\<rparr>]. 0 \<le> val p"
    by simp
  have v: "map sd_sum (prepare_loop (Some 3600) 10 []
        [\<lparr>started_at = 3600, val = 1\<rparr>, \<lparr>started_at = 7200, val = 3 / 2\<rparr>,
         \<lparr>started_at = 10800, val = 2\<rparr>]) = [23 / 2, 27 / 2]"
    by (simp add: skip_point_def Let_def)
  have f: "map val (filter (\<lambda>p. \<not> skip_point (Some 3600) p)
        [\<lparr>started_at = 3600, val = 1\<rparr>, \<lparr>started_at = 7200, val = 3 / 2\<rparr>,
         \<lparr>started_at = 10800, val = 2\<rparr>]) = [3 / 2, 2]"
    by (simp add: skip_point_def)
  show ?thesis
    using v f monotonic_cumulative_sum [OF h, of 10 "Some 3600"] by simp
qed

subsection \<open>The algorithm of the reconciliation engine\<close>

text \<open>
  What the engine computes, in the terms of the specification's algorithm: with no
  existing statistics for the series it runs with no cutoff from sum 0; otherwise the
  cutoff is the \<^verbatim>\<open>"end"\<close> of the row at index 0 and the running sum starts at that
  row's \<^verbatim>\<open>"sum"\<close> (0 when it is \<^verbatim>\<open>None\<close>).
\<close>

lemma prepare_statistics_first_row:
  "(map_of existing_stats statistic_id = None \<longrightarrow>
      prepare_statistics statistic_id time_series existing_stats =
        Inr (spec_reconcile None None time_series))
   \<and> (map_of existing_stats statistic_id = Some (r # rs) \<longrightarrow>
      prepare_statistics statistic_id time_series existing_stats =
        Inr (spec_reconcile (Some (row_end r)) (row_sum r) time_series))"
  by (simp add: prepare_statistics_def spec_reconcile_def prepare_loop_spec_emit)

text \<open>
  Claim C10. When the series has existing statistics and the \<^verbatim>\<open>"sum"\<close> of the row
  read is \<^verbatim>\<open>None\<close>, the running sum starts at 0 while the cutoff is still that row's
  \<^verbatim>\<open>"end"\<close>: the entries emitted are those of the points that start after the cutoff,
  and each cumulative sum is the sum of the accepted values alone, up to and including
  its entry.
\<close>

theorem prepare_statistics_sum_none:
  assumes "map_of existing_stats statistic_id = Some (r # rs)" and "row_sum r = None"
  shows "prepare_statistics statistic_id time_series existing_stats =
           Inr (prepare_loop (Some (row_end r)) 0 [] time_series)
    \<and> map sd_start (prepare_loop (Some (row_end r)) 0 [] time_series) =
        map started_at (filter (\<lambda>p. row_end r < started_at p) time_series)
    \<and> map sd_state (prepare_loop (Some (row_end r)) 0 [] time_series) =
        map val (filter (\<lambda>p. row_end r < started_at p) time_series)
    \<and> (\<forall>i < length (filter (\<lambda>p. row_end r < started_at p) time_series).
          sd_sum (prepare_loop (Some (row_end r)) 0 [] time_series ! i) =
            sum_list (map val (take (Suc i)
              (filter (\<lambda>p. row_end r < started_at p) time_series))))"
proof -
  have acc: "(\<lambda>p. \<not> skip_point (Some (row_end r)) p) = (\<lambda>p. row_end r < started_at p)"
    by (auto simp: skip_point_def)
  have run: "prepare_statistics statistic_id time_series existing_stats =
           Inr (prepare_loop (Some (row_end r)) 0 [] time_series)"
    using assms by (simp add: prepare_statistics_def)
  have sums: "sd_sum (prepare_loop (Some (row_end r)) 0 [] time_series ! i) =
            sum_list (map val (take (Suc i)
              (filter (\<lambda>p. row_end r < started_at p) time_series)))"
    if "i < length (filter (\<lambda>p. row_end r < started_at p) time_series)" for i
  proof -
    have "i < length (prepare_loop (Some (row_end r)) 0 [] time_series)"
      using that by (simp add: prepare_loop_length acc)
    from prepare_loop_sums [OF this] show ?thesis by (simp add: acc)
  qed
  show ?thesis
    using run sums prepare_loop_starts [of "Some (row_end r)" 0 time_series]
      prepare_loop_states [of "Some (row_end r)" 0 time_series]
    by (simp add: acc)
qed

theorem prepare_statistics_sum_none_witness:
  "prepare_statistics ''leneda:lu000001_1_1_1_29_0''
     [\<lparr>started_at = 1700006400, val = 4\<rparr>, \<lparr>started_at = 1700010000, val = 1\<rparr>,
      \<lparr>started_at = 1700013600, val = 2\<rparr>, \<lparr>started_at = 1700017200, val = 3\<rparr>]
     [(''leneda:lu000001_1_1_1_29_0'',
       [\<lparr>row_start = 1700006400, row_end = 1700010000, row_sum = None\<rparr>])]
   = Inr [\<lparr>sd_start = 1700013600, sd_state = 2, sd_sum = 2\<rparr>,
          \<lparr>sd_start = 1700017200, sd_state = 3, sd_sum = 5\<rparr>]"
proof -
  let ?sid = "''leneda:lu000001_1_1_1_29_0''"
  let ?ts = "[\<lparr>started_at = 1700006400, val = 4\<rparr>, \<lparr>started_at = 1700010000, val = 1\<rparr>,
      \<lparr>started_at = 1700013600, val = 2\<rparr>, \<lparr>started_at = 1700017200, val = 3::real\<rparr>]"
  let ?r = "\<lparr>row_start = 1700006400, row_end = 1700010000, row_sum = None\<rparr>"
  have a: "map_of [(?sid, [?r])] ?sid = Some (?r # [])" by simp
  have b: "row_sum ?r = None" by simp
  have c: "prepare_loop (Some (row_end ?r)) 0 [] ?ts =
      [\<lparr>sd_start = 1700013600, sd_state = 2, sd_sum = 2\<rparr>,
       \<lparr>sd_start = 1700017200, sd_state = 3, sd_sum = 5\<rparr>]"
    by (simp add: skip_point_def Let_def)
  show ?thesis
    using prepare_statistics_sum_none [OF a b, of ?ts] c by simp
qed

subsection \<open>The recorder never makes the coordinator raise\<close>

lemma get_statistics_start_date_baseline:
  "get_statistics_start_date w sid = Inr (spec_baseline w sid)"
  by (simp add: get_statistics_start_date_def get_last_statistics_def spec_baseline_def
      split: option.splits list.splits)

lemma existing_statistics_rows:
  "map_of (get_existing_statistics w sid) sid = None \<or>
   (\<exists>r rs. map_of (get_existing_statistics w sid) sid = Some (r # rs))"
proof (cases "map_of (recorder w) sid")
  case None
  then show ?thesis
    by (simp add: get_existing_statistics_def statistics_during_period_def)
next
  case (Some rows)
  show ?thesis
  proof (cases "filter (\<lambda>r. STATISTICS_PERIOD_START \<le> row_start r) rows")
    case Nil
    then show ?thesis using Some
      by (simp add: get_existing_statistics_def statistics_during_period_def)
  next
    case (Cons r rs)
    then show ?thesis using Some
      by (simp add: get_existing_statistics_def statistics_during_period_def)
  qed
qed

lemma prepare_statistics_existing:
  "\<exists>es. prepare_statistics sid ts (get_existing_statistics w sid) = Inr es"
  using existing_statistics_rows [of w sid]
  by (auto simp: prepare_statistics_def)

lemma async_add_requests [simp]:
  "requests (async_add_external_statistics sid es w) = requests w"
  by (simp add: async_add_external_statistics_def Let_def)

lemma async_add_errors [simp]:
  "errors_logged (async_add_external_statistics sid es w) = errors_logged w"
  by (simp add: async_add_external_statistics_def Let_def)

lemma process_and_store_returns:
  "\<exists>w'. process_and_store_statistics sid mp obis ts w = (Inr (), w')
     \<and> requests w' = requests w \<and> errors_logged w' = errors_logged w"
  using prepare_statistics_existing [of sid ts w]
  by (auto simp: process_and_store_statistics_def store_statistics_def Let_def)

subsection \<open>Sample identities\<close>

lemma sample_statistic_id:
  "create_statistic_id ''LU000001'' (sample_obis_value ELEC_CONSUMPTION_ACTIVE) =
     ''leneda:lu000001_1_1_1_29_0''"
  by code_simp

lemma sample_statistic_id_reactive:
  "create_statistic_id ''LU000001'' (sample_obis_value ELEC_CONSUMPTION_REACTIVE) =
     ''leneda:lu000001_1_1_3_29_0''"
  by code_simp

subsection \<open>The fetch window\<close>

text \<open>
  Claim C3. With the baseline being the end of the last stored entry of the series, or the
  fixed epoch when nothing is stored: when now minus one day is earlier than the
  baseline, \<^verbatim>\<open>_update_statistics\<close> returns at once and leaves the world as it was (no
  call to the remote service, no change to the recorder); otherwise it makes exactly one
  call to the remote service, hourly and in accumulation mode, for the window that starts
  at the baseline minus one day and ends at now.
\<close>

theorem update_statistics_window:
  "(now e - one_day < spec_baseline w (create_statistic_id metering_point (obis_value e obis)) \<longrightarrow>
      update_statistics e metering_point obis w = (Inr (), w))
   \<and> (\<not> now e - one_day < spec_baseline w (create_statistic_id metering_point (obis_value e obis)) \<longrightarrow>
      requests (snd (update_statistics e metering_point obis w)) =
        requests w @
          [\<lparr>req_metering_point = metering_point, req_obis = obis,
            req_start = spec_baseline w (create_statistic_id metering_point (obis_value e obis))
                          - one_day,
            req_end = now e, req_granularity = ''Hour'', req_mode = ''Accumulation''\<rparr>])"
proof -
  let ?sid = "create_statistic_id metering_point (obis_value e obis)"
  let ?b = "spec_baseline w ?sid"
  let ?req = "\<lparr>req_metering_point = metering_point, req_obis = obis,
            req_start = ?b - one_day,
            req_end = now e, req_granularity = ''Hour'', req_mode = ''Accumulation''\<rparr>"
  have skip: "update_statistics e metering_point obis w = (Inr (), w)"
    if "now e - one_day < ?b"
    using that by (simp add: update_statistics_def get_statistics_start_date_baseline Let_def)
  have fetch: "requests (snd (update_statistics e metering_point obis w)) = requests w @ [?req]"
    if nb: "\<not> now e - one_day < ?b"
  proof (cases "client e ?req")
    case (Inl x)
    then show ?thesis using nb
      by (simp add: update_statistics_def get_statistics_start_date_baseline Let_def
          fetch_hourly_data_def)
  next
    case (Inr series)
    obtain w' where
      st: "process_and_store_statistics ?sid metering_point obis series
              (w\<lparr>requests := requests w @ [?req]\<rparr>) = (Inr (), w')"
      and rq: "requests w' = requests (w\<lparr>requests := requests w @ [?req]\<rparr>)"
      using process_and_store_returns by blast
    show ?thesis using nb Inr st rq
      by (simp add: update_statistics_def get_statistics_start_date_baseline Let_def
          fetch_hourly_data_def)
  qed
  show ?thesis using skip fetch by blast
qed

theorem update_statistics_window_witness:
  "update_statistics (sample_env (\<lambda>q. Inr []) 1700017200) ''LU000001'' ELEC_CONSUMPTION_ACTIVE
     \<lparr>recorder = [(''leneda:lu000001_1_1_1_29_0'',
         [\<lparr>row_start = 1700006400, row_end = 1700010000, row_sum = Some (3 / 2)\<rparr>,
          \<lparr>row_start = 1700010000, row_end = 1700013600, row_sum = Some (7 / 2)\<rparr>])],
       requests = [], errors_logged = []\<rparr>
   = (Inr (),
     \<lparr>recorder = [(''leneda:lu000001_1_1_1_29_0'',
         [\<lparr>row_start = 1700006400, row_end = 1700010000, row_sum = Some (3 / 2)\<rparr>,
          \<lparr>row_start = 1700010000, row_end = 1700013600, row_sum = Some (7 / 2)\<rparr>])],
       requests = [], errors_logged = []\<rparr>)
   \<and> requests (snd (update_statistics (sample_env (\<lambda>q. Inr []) 1700100000) ''LU000001''
         ELEC_CONSUMPTION_ACTIVE empty_world))
   = [\<lparr>req_metering_point = ''LU000001'', req_obis = ELEC_CONSUMPTION_ACTIVE,
       req_start = 946598400, req_end = 1700100000,
       req_granularity = ''Hour'', req_mode = ''Accumulation''\<rparr>]"
proof -
  let ?w = "\<lparr>recorder = [(''leneda:lu000001_1_1_1_29_0'',
         [\<lparr>row_start = 1700006400, row_end = 1700010000, row_sum = Some (3 / 2)\<rparr>,
          \<lparr>row_start = 1700010000, row_end = 1700013600, row_sum = Some (7 / 2)\<rparr>])],
       requests = [], errors_logged = []\<rparr>"
  have b1: "spec_baseline ?w ''leneda:lu000001_1_1_1_29_0'' = 1700013600"
    by (simp add: spec_baseline_def)
  have b2: "spec_baseline empty_world ''leneda:lu000001_1_1_1_29_0'' = 946684800"
    by (simp add: spec_baseline_def empty_world_def STATISTICS_PERIOD_START_def)
  have b3: "requests empty_world = []"
    by (simp add: empty_world_def)
  show ?thesis
    using update_statistics_window [of "sample_env (\<lambda>q. Inr []) 1700017200" ?w
        "''LU000001''" ELEC_CONSUMPTION_ACTIVE]
      update_statistics_window [of "sample_env (\<lambda>q. Inr []) 1700100000" empty_world
        "''LU000001''" ELEC_CONSUMPTION_ACTIVE]
    by (simp add: sample_env_def sample_statistic_id b1 b2 b3 one_day_def)
qed

subsection \<open>Whole ticks on sample inputs\<close>

lemmas tick_defs =
  async_update_data_def process_metering_point_def update_statistics_def
  get_current_total_def fetch_hourly_data_def process_and_store_statistics_def
  store_statistics_def get_existing_statistics_def get_statistics_start_date_def
  get_last_statistics_def statistics_during_period_def async_add_external_statistics_def
  prepare_statistics_def skip_point_def row_of_def
  STATISTICS_PERIOD_START_def one_day_def one_hour_def Let_def
  sample_env_def empty_world_def SENSOR_TYPES_def

text \<open>
  Claim C8. For metering point \<open>LU000001\<close> and the channel of active electricity
  consumption, with nothing stored and a remote service that returns two points of
  consecutive hours with values 1.5 and 2.0, reconciliation emits exactly two entries
  with cumulative sums 1.5 and 3.5, the tick stores them as the rows of their hours, and
  the live total of the channel in the result map is 3.5.
\<close>

theorem end_to_end_scenario:
  assumes "client e = (\<lambda>q. Inr [\<lparr>started_at = t, val = 3 / 2\<rparr>,
                                  \<lparr>started_at = t + one_hour, val = 2\<rparr>])"
    and "STATISTICS_PERIOD_START + one_day \<le> now e"
  shows "prepare_statistics (create_statistic_id ''LU000001'' (obis_value e ELEC_CONSUMPTION_ACTIVE))
      [\<lparr>started_at = t, val = 3 / 2\<rparr>, \<lparr>started_at = t + one_hour, val = 2\<rparr>]
      (get_existing_statistics empty_world
        (create_statistic_id ''LU000001'' (obis_value e ELEC_CONSUMPTION_ACTIVE)))
    = Inr [\<lparr>sd_start = t, sd_state = 3 / 2, sd_sum = 3 / 2\<rparr>,
           \<lparr>sd_start = t + one_hour, sd_state = 2, sd_sum = 7 / 2\<rparr>]
   \<and> async_update_data e [(''LU000001'', [''electricity_consumption_active''])] empty_world
    = (Inr [(''LU000001'', [(ELEC_CONSUMPTION_ACTIVE, Some (7 / 2))])],
       \<lparr>recorder =
          [(create_statistic_id ''LU000001'' (obis_value e ELEC_CONSUMPTION_ACTIVE),
            [\<lparr>row_start = t, row_end = t + one_hour, row_sum = Some (3 / 2)\<rparr>,
             \<lparr>row_start = t + one_hour, row_end = t + one_hour + one_hour,
              row_sum = Some (7 / 2)\<rparr>])],
        requests =
          [\<lparr>req_metering_point = ''LU000001'', req_obis = ELEC_CONSUMPTION_ACTIVE,
            req_start = STATISTICS_PERIOD_START - one_day, req_end = now e,
            req_granularity = ''Hour'', req_mode = ''Accumulation''\<rparr>,
           \<lparr>req_metering_point = ''LU000001'', req_obis = ELEC_CONSUMPTION_ACTIVE,
            req_start = year_start e, req_end = now e,
            req_granularity = ''Infinite'', req_mode = ''Accumulation''\<rparr>],
        errors_logged = []\<rparr>)"
  using assms by (simp add: tick_defs)

theorem end_to_end_scenario_witness:
  "async_update_data
     (sample_env (\<lambda>q. Inr [\<lparr>started_at = 1700006400, val = 3 / 2\<rparr>,
                           \<lparr>started_at = 1700010000, val = 2\<rparr>]) 1700100000)
     [(''LU000001'', [''electricity_consumption_active''])] empty_world
    = (Inr [(''LU000001'', [(ELEC_CONSUMPTION_ACTIVE, Some (7 / 2))])],
       \<lparr>recorder =
          [(''leneda:lu000001_1_1_1_29_0'',
            [\<lparr>row_start = 1700006400, row_end = 1700010000, row_sum = Some (3 / 2)\<rparr>,
             \<lparr>row_start = 1700010000, row_end = 1700013600, row_sum = Some (7 / 2)\<rparr>])],
        requests =
          [\<lparr>req_metering_point = ''LU000001'', req_obis = ELEC_CONSUMPTION_ACTIVE,
            req_start = 946598400, req_end = 1700100000,
            req_granularity = ''Hour'', req_mode = ''Accumulation''\<rparr>,
           \<lparr>req_metering_point = ''LU000001'', req_obis = ELEC_CONSUMPTION_ACTIVE,
            req_start = 1672531200, req_end = 1700100000,
            req_granularity = ''Infinite'', req_mode = ''Accumulation''\<rparr>],
        errors_logged = []\<rparr>)"
proof -
  let ?e = "sample_env (\<lambda>q. Inr [\<lparr>started_at = 1700006400, val = 3 / 2\<rparr>,
                           \<lparr>started_at = 1700010000, val = 2\<rparr>]) 1700100000"
  have a: "client ?e = (\<lambda>q. Inr [\<lparr>started_at = 1700006400, val = 3 / 2\<rparr>,
                           \<lparr>started_at = 1700006400 + one_hour, val = 2\<rparr>])"
    by (simp add: sample_env_def one_hour_def)
  have b: "STATISTICS_PERIOD_START + one_day \<le> now ?e"
    by (simp add: sample_env_def STATISTICS_PERIOD_START_def one_day_def)
  have c: "obis_value ?e = sample_obis_value" "now ?e = 1700100000" "year_start ?e = 1672531200"
    by (simp_all add: sample_env_def)
  show ?thesis
    using end_to_end_scenario [OF a b]
    by (simp add: c sample_statistic_id STATISTICS_PERIOD_START_def one_day_def one_hour_def)
qed

text \<open>
  Claim C1, evaluated where it fails. A first tick on an empty recorder fetches three
  hourly points with values 1, 2 and 4 and stores cumulative sums 1, 3 and 7. A later tick
  fetches the same three points again. \<^verbatim>\<open>_get_existing_statistics\<close> returns every stored
  row in ascending order and \<^verbatim>\<open>_prepare_statistics\<close> reads the row at index 0, the
  oldest: the third point starts after that row's end, so one entry is emitted again,
  with cumulative sum 1 + 4 = 5, and the stored sum of the third hour falls from 7 to 5.
\<close>

theorem second_run_recounts:
  "update_statistics
     (sample_env (\<lambda>q. Inr [\<lparr>started_at = 1700006400, val = 1\<rparr>,
        \<lparr>started_at = 1700010000, val = 2\<rparr>, \<lparr>started_at = 1700013600, val = 4\<rparr>]) 1700020000)
     ''LU000001'' ELEC_CONSUMPTION_ACTIVE empty_world
   = (Inr (),
      \<lparr>recorder = [(''leneda:lu000001_1_1_1_29_0'',
         [\<lparr>row_start = 1700006400, row_end = 1700010000, row_sum = Some 1\<rparr>,
          \<lparr>row_start = 1700010000, row_end = 1700013600, row_sum = Some 3\<rparr>,
          \<lparr>row_start = 1700013600, row_end = 1700017200, row_sum = Some 7\<rparr>])],
       requests = [\<lparr>req_metering_point = ''LU000001'', req_obis = ELEC_CONSUMPTION_ACTIVE,
          req_start = 946598400, req_end = 1700020000,
          req_granularity = ''Hour'', req_mode = ''Accumulation''\<rparr>],
       errors_logged = []\<rparr>)
   \<and> update_statistics
     (sample_env (\<lambda>q. Inr [\<lparr>started_at = 1700006400, val = 1\<rparr>,
        \<lparr>started_at = 1700010000, val = 2\<rparr>, \<lparr>started_at = 1700013600, val = 4\<rparr>]) 1700103600)
     ''LU000001'' ELEC_CONSUMPTION_ACTIVE
     \<lparr>recorder = [(''leneda:lu000001_1_1_1_29_0'',
         [\<lparr>row_start = 1700006400, row_end = 1700010000, row_sum = Some 1\<rparr>,
          \<lparr>row_start = 1700010000, row_end = 1700013600, row_sum = Some 3\<rparr>,
          \<lparr>row_start = 1700013600, row_end = 1700017200, row_sum = Some 7\<rparr>])],
       requests = [], errors_logged = []\<rparr>
   = (Inr (),
      \<lparr>recorder = [(''leneda:lu000001_1_1_1_29_0'',
         [\<lparr>row_start = 1700006400, row_end = 1700010000, row_sum = Some 1\<rparr>,
          \<lparr>row_start = 1700010000, row_end = 1700013600, row_sum = Some 3\<rparr>,
          \<lparr>row_start = 1700013600, row_end = 1700017200, row_sum = Some 5\<rparr>])],
       requests = [\<lparr>req_metering_point = ''LU000001'', req_obis = ELEC_CONSUMPTION_ACTIVE,
          req_start = 1699930800, req_end = 1700103600,
          req_granularity = ''Hour'', req_mode = ''Accumulation''\<rparr>],
       errors_logged = []\<rparr>)
   \<and> prepare_statistics ''leneda:lu000001_1_1_1_29_0''
       [\<lparr>started_at = 1700006400, val = 1\<rparr>,
        \<lparr>started_at = 1700010000, val = 2\<rparr>, \<lparr>started_at = 1700013600, val = 4\<rparr>]
       (get_existing_statistics
         \<lparr>recorder = [(''leneda:lu000001_1_1_1_29_0'',
           [\<lparr>row_start = 1700006400, row_end = 1700010000, row_sum = Some 1\<rparr>,
            \<lparr>row_start = 1700010000, row_end = 1700013600, row_sum = Some 3\<rparr>,
            \<lparr>row_start = 1700013600, row_end = 1700017200, row_sum = Some 7\<rparr>])],
          requests = [], errors_logged = []\<rparr>
         ''leneda:lu000001_1_1_1_29_0'')
   = Inr [\<lparr>sd_start = 1700013600, sd_state = 4, sd_sum = 5\<rparr>]"
  by (simp add: tick_defs sample_statistic_id)

text \<open>
  Claim C2, evaluated where it fails. The series holds one stored hour, starting at
  1700006400 and ending at 1700010000, with cumulative sum 5, and the remote service
  returns the points of the next two hours, with values 1 and 2. Both start after the
  last stored period start, so the algorithm as the specification words it emits both,
  with sums 6 and 8. The code compares with the stored \<^verbatim>\<open>"end"\<close>, which is the start
  of the next hour: it discards the point of that hour and emits only the second point,
  with sum 7. In the tick, \<^verbatim>\<open>_get_statistics_start_date\<close> takes that same instant as
  the place where new data begins, and after the tick the hour that starts at 1700010000
  is not stored.
\<close>

theorem prepare_statistics_cutoff_is_end:
  "prepare_statistics ''leneda:lu000001_1_1_1_29_0''
     [\<lparr>started_at = 1700010000, val = 1\<rparr>, \<lparr>started_at = 1700013600, val = 2\<rparr>]
     [(''leneda:lu000001_1_1_1_29_0'',
       [\<lparr>row_start = 1700006400, row_end = 1700010000, row_sum = Some 5\<rparr>])]
   = Inr [\<lparr>sd_start = 1700013600, sd_state = 2, sd_sum = 7\<rparr>]
   \<and> spec_reconcile (Some 1700006400) (Some 5)
     [\<lparr>started_at = 1700010000, val = 1\<rparr>, \<lparr>started_at = 1700013600, val = 2\<rparr>]
   = [\<lparr>sd_start = 1700010000, sd_state = 1, sd_sum = 6\<rparr>,
      \<lparr>sd_start = 1700013600, sd_state = 2, sd_sum = 8\<rparr>]
   \<and> get_statistics_start_date
     \<lparr>recorder = [(''leneda:lu000001_1_1_1_29_0'',
         [\<lparr>row_start = 1700006400, row_end = 1700010000, row_sum = Some 5\<rparr>])],
       requests = [], errors_logged = []\<rparr>
     ''leneda:lu000001_1_1_1_29_0''
   = Inr 1700010000
   \<and> update_statistics
     (sample_env (\<lambda>q. Inr [\<lparr>started_at = 1700010000, val = 1\<rparr>,
                           \<lparr>started_at = 1700013600, val = 2\<rparr>]) 1700100000)
     ''LU000001'' ELEC_CONSUMPTION_ACTIVE
     \<lparr>recorder = [(''leneda:lu000001_1_1_1_29_0'',
         [\<lparr>row_start = 1700006400, row_end = 1700010000, row_sum = Some 5\<rparr>])],
       requests = [], errors_logged = []\<rparr>
   = (Inr (),
      \<lparr>recorder = [(''leneda:lu000001_1_1_1_29_0'',
         [\<lparr>row_start = 1700006400, row_end = 1700010000, row_sum = Some 5\<rparr>,
          \<lparr>row_start = 1700013600, row_end = 1700017200, row_sum = Some 7\<rparr>])],
       requests = [\<lparr>req_metering_point = ''LU000001'', req_obis = ELEC_CONSUMPTION_ACTIVE,
          req_start = 1699923600, req_end = 1700100000,
          req_granularity = ''Hour'', req_mode = ''Accumulation''\<rparr>],
       errors_logged = []\<rparr>)"
  by (simp add: tick_defs sample_statistic_id spec_reconcile_def)

lemma sample_tick_unauthorized:
  "async_update_data
     (sample_env (\<lambda>q. if req_obis q = ELEC_CONSUMPTION_ACTIVE
        then Inr [\<lparr>started_at = 1700006400, val = 3 / 2\<rparr>, \<lparr>started_at = 1700010000, val = 2\<rparr>]
        else Inl UnauthorizedException) 1700100000)
     [(''LU000001'', [''electricity_consumption_active'', ''electricity_consumption_reactive''])]
     empty_world
   = (Inl ConfigEntryAuthFailed,
      \<lparr>recorder = [(''leneda:lu000001_1_1_1_29_0'',
         [\<lparr>row_start = 1700006400, row_end = 1700010000, row_sum = Some (3 / 2)\<rparr>,
          \<lparr>row_start = 1700010000, row_end = 1700013600, row_sum = Some (7 / 2)\<rparr>])],
       requests =
         [\<lparr>req_metering_point = ''LU000001'', req_obis = ELEC_CONSUMPTION_ACTIVE,
           req_start = 946598400, req_end = 1700100000,
           req_granularity = ''Hour'', req_mode = ''Accumulation''\<rparr>,
          \<lparr>req_metering_point = ''LU000001'', req_obis = ELEC_CONSUMPTION_ACTIVE,
           req_start = 1672531200, req_end = 1700100000,
           req_granularity = ''Infinite'', req_mode = ''Accumulation''\<rparr>,
          \<lparr>req_metering_point = ''LU000001'', req_obis = ELEC_CONSUMPTION_REACTIVE,
           req_start = 946598400, req_end = 1700100000,
           req_granularity = ''Hour'', req_mode = ''Accumulation''\<rparr>],
       errors_logged = [AuthenticationError]\<rparr>)"
  by (simp add: tick_defs sample_statistic_id sample_statistic_id_reactive)

lemma sample_tick_forbidden:
  "async_update_data
     (sample_env (\<lambda>q. if req_obis q = ELEC_CONSUMPTION_ACTIVE
        then Inl ForbiddenException
        else Inr [\<lparr>started_at = 1700006400, val = 3 / 2\<rparr>, \<lparr>started_at = 1700010000, val = 2\<rparr>])
        1700100000)
     [(''LU000001'', [''electricity_consumption_active'', ''electricity_consumption_reactive''])]
     empty_world
   = (Inl ForbiddenException,
      \<lparr>recorder = [],
       requests =
         [\<lparr>req_metering_point = ''LU000001'', req_obis = ELEC_CONSUMPTION_ACTIVE,
           req_start = 946598400, req_end = 1700100000,
           req_granularity = ''Hour'', req_mode = ''Accumulation''\<rparr>],
       errors_logged = []\<rparr>)"
  by (simp add: tick_defs sample_statistic_id sample_statistic_id_reactive)

subsection \<open>The calls of a tick end at the first one that raises\<close>

lemma trace_ok_Nil: "trace_ok e None []"
  by (simp add: trace_ok_def)

lemma trace_ok_append:
  "trace_ok e None rs1 \<Longrightarrow> trace_ok e x rs2 \<Longrightarrow> trace_ok e x (rs1 @ rs2)"
  by (cases x) (auto simp: trace_ok_def butlast_append)

lemma trace_ok_single:
  "trace_ok e (raised (client e q)) [q]"
  by (cases "client e q") (simp_all add: trace_ok_def raised_def returned_def)

lemma update_statistics_trace:
  assumes "update_statistics e mp obis w = (res, w')"
  shows "\<exists>rs. requests w' = requests w @ rs \<and> trace_ok e (raised res) rs
           \<and> errors_logged w' = errors_logged w"
proof -
  let ?sid = "create_statistic_id mp (obis_value e obis)"
  let ?b = "spec_baseline w ?sid"
  let ?req = "\<lparr>req_metering_point = mp, req_obis = obis, req_start = ?b - one_day,
            req_end = now e, req_granularity = ''Hour'', req_mode = ''Accumulation''\<rparr>"
  let ?w1 = "w\<lparr>requests := requests w @ [?req]\<rparr>"
  show ?thesis
  proof (cases "now e - one_day < ?b")
    case True
    then have "res = Inr () \<and> w' = w"
      using assms
      by (simp add: update_statistics_def get_statistics_start_date_baseline Let_def)
    then show ?thesis by (simp add: raised_def trace_ok_def)
  next
    case nb: False
    show ?thesis
    proof (cases "client e ?req")
      case (Inl x)
      then have "res = Inl x \<and> w' = ?w1"
        using assms nb
        by (simp add: update_statistics_def get_statistics_start_date_baseline Let_def
            fetch_hourly_data_def)
      then show ?thesis using trace_ok_single [of e ?req] Inl by (simp add: raised_def)
    next
      case (Inr series)
      obtain w2 where
        st: "process_and_store_statistics ?sid mp obis series ?w1 = (Inr (), w2)"
        and rq: "requests w2 = requests ?w1" and el: "errors_logged w2 = errors_logged ?w1"
        using process_and_store_returns by blast
      have "res = Inr () \<and> (w' = ?w1 \<or> w' = w2)"
        using assms nb Inr st
        by (auto simp: update_statistics_def get_statistics_start_date_baseline Let_def
            fetch_hourly_data_def split: if_splits)
      then have "requests w' = requests w @ [?req] \<and> errors_logged w' = errors_logged w
          \<and> raised res = None"
        using rq el by (auto simp: raised_def)
      then show ?thesis using trace_ok_single [of e ?req] Inr by (auto simp: raised_def)
    qed
  qed
qed

lemma get_current_total_trace:
  assumes "get_current_total e mp obis w = (res, w')"
  shows "\<exists>rs. requests w' = requests w @ rs \<and> trace_ok e (raised res) rs
           \<and> errors_logged w' = errors_logged w"
proof -
  let ?req = "\<lparr>req_metering_point = mp, req_obis = obis, req_start = year_start e,
            req_end = now e, req_granularity = ''Infinite'', req_mode = ''Accumulation''\<rparr>"
  have "requests w' = requests w @ [?req] \<and> errors_logged w' = errors_logged w
      \<and> raised res = raised (client e ?req)"
    using assms
    by (cases "client e ?req")
      (auto simp: get_current_total_def Let_def raised_def split: if_splits)
  then show ?thesis using trace_ok_single [of e ?req] by auto
qed

lemma process_sensors_trace:
  "process_sensors e mp xs vals w = (res, w') \<Longrightarrow>
   \<exists>rs. requests w' = requests w @ rs \<and> trace_ok e (raised res) rs"
proof (induction xs arbitrary: vals w)
  case Nil
  then show ?case by (auto simp: raised_def trace_ok_def)
next
  case (Cons s xs)
  show ?case
  proof (cases "map_of SENSOR_TYPES s")
    case None
    then have "process_sensors e mp xs vals
        (w\<lparr>errors_logged := errors_logged w @ [UnknownSensorType s mp]\<rparr>) = (res, w')"
      using Cons.prems by simp
    from Cons.IH [OF this] show ?thesis by simp
  next
    case (Some cfg)
    obtain r1 w1 where u: "update_statistics e mp (obis_code cfg) w = (r1, w1)"
      by (cases "update_statistics e mp (obis_code cfg) w")
    from update_statistics_trace [OF u] obtain rs1 where
      q1: "requests w1 = requests w @ rs1" and t1: "trace_ok e (raised r1) rs1"
      by blast
    show ?thesis
    proof (cases r1)
      case (Inl x)
      then have "res = Inl x \<and> w' = w1"
        using Cons.prems Some u by (simp add: Let_def)
      then show ?thesis using q1 t1 Inl by (auto simp: raised_def)
    next
      case r1: (Inr u1)
      obtain r2 w2 where g: "get_current_total e mp (obis_code cfg) w1 = (r2, w2)"
        by (cases "get_current_total e mp (obis_code cfg) w1")
      from get_current_total_trace [OF g] obtain rs2 where
        q2: "requests w2 = requests w1 @ rs2" and t2: "trace_ok e (raised r2) rs2"
        by blast
      have n1: "trace_ok e None rs1" using t1 r1 by (simp add: raised_def)
      show ?thesis
      proof (cases r2)
        case (Inl x)
        then have "res = Inl x \<and> w' = w2"
          using Cons.prems Some u r1 g by (simp add: Let_def)
        then show ?thesis
          using q1 q2 Inl trace_ok_append [OF n1 t2] by (auto simp: raised_def)
      next
        case r2: (Inr total)
        have n2: "trace_ok e None (rs1 @ rs2)"
          using trace_ok_append [OF n1 t2] r2 by (simp add: raised_def)
        have "process_sensors e mp xs (AList.update (obis_code cfg) total vals) w2 = (res, w')"
          using Cons.prems Some u r1 g r2 by (simp add: Let_def)
        from Cons.IH [OF this] obtain rs3 where
          q3: "requests w' = requests w2 @ rs3" and t3: "trace_ok e (raised res) rs3"
          by blast
        show ?thesis
          using q1 q2 q3 trace_ok_append [OF n2 t3] by auto
      qed
    qed
  qed
qed

lemma update_loop_trace:
  "update_loop e mps data w = (res, w') \<Longrightarrow>
   \<exists>rs. requests w' = requests w @ rs \<and> trace_ok e (raised res) rs"
proof (induction mps arbitrary: data w)
  case Nil
  then show ?case by (auto simp: raised_def trace_ok_def)
next
  case (Cons m mps)
  obtain mp sensors where m: "m = (mp, sensors)" by (cases m)
  obtain r1 w1 where p: "process_sensors e mp sensors [] w = (r1, w1)"
    by (cases "process_sensors e mp sensors [] w")
  from process_sensors_trace [OF p] obtain rs1 where
    q1: "requests w1 = requests w @ rs1" and t1: "trace_ok e (raised r1) rs1"
    by blast
  show ?case
  proof (cases r1)
    case (Inl x)
    then have "res = Inl x \<and> w' = w1"
      using Cons.prems m p by (simp add: process_metering_point_def)
    then show ?thesis using q1 t1 Inl by (auto simp: raised_def)
  next
    case r1: (Inr meter_data)
    have n1: "trace_ok e None rs1" using t1 r1 by (simp add: raised_def)
    have "update_loop e mps (AList.update mp meter_data data) w1 = (res, w')"
      using Cons.prems m p r1 by (simp add: process_metering_point_def)
    from Cons.IH [OF this] obtain rs2 where
      q2: "requests w' = requests w1 @ rs2" and t2: "trace_ok e (raised res) rs2"
      by blast
    show ?thesis using q1 q2 trace_ok_append [OF n1 t2] by auto
  qed
qed

lemma async_update_data_trace:
  assumes "async_update_data e mps w = (res, w')"
  shows "\<exists>x. trace_ok e x (new_requests w w')
    \<and> raised res =
        map_option (\<lambda>y. if y = UnauthorizedException then ConfigEntryAuthFailed else y) x
    \<and> (x = Some UnauthorizedException \<longrightarrow> errors_logged w' \<noteq> []
          \<and> last (errors_logged w') = AuthenticationError)"
proof -
  obtain r1 w1 where l: "update_loop e mps [] w = (r1, w1)"
    by (cases "update_loop e mps [] w")
  from update_loop_trace [OF l] obtain rs where
    q: "requests w1 = requests w @ rs" and t: "trace_ok e (raised r1) rs"
    by blast
  show ?thesis
  proof (cases r1)
    case (Inl y)
    show ?thesis
    proof (cases "y = UnauthorizedException")
      case True
      then have "res = Inl ConfigEntryAuthFailed
          \<and> w' = w1\<lparr>errors_logged := errors_logged w1 @ [AuthenticationError]\<rparr>"
        using assms l Inl by (simp add: async_update_data_def)
      then show ?thesis using q t Inl True
        by (intro exI [of _ "Some y"]) (simp add: new_requests_def raised_def)
    next
      case False
      then have "res = Inl y \<and> w' = w1"
        using assms l Inl by (simp add: async_update_data_def)
      then show ?thesis using q t Inl False
        by (intro exI [of _ "Some y"]) (simp add: new_requests_def raised_def)
    qed
  next
    case (Inr data)
    then have "res = Inr data \<and> w' = w1"
      using assms l by (simp add: async_update_data_def)
    then show ?thesis using q t Inr
      by (intro exI [of _ None]) (simp add: new_requests_def raised_def)
  qed
qed

lemma trace_ok_failing_call:
  assumes "trace_ok e x rs" and "q \<in> set rs" and "client e q = Inl y"
  shows "x = Some y \<and> last rs = q \<and> list_all (returned e) (butlast rs)"
proof (cases x)
  case None
  then have "returned e q" using assms by (auto simp: trace_ok_def list_all_iff)
  then show ?thesis using assms(3) by (simp add: returned_def)
next
  case (Some z)
  then have ne: "rs \<noteq> []" and bl: "list_all (returned e) (butlast rs)"
    and la: "client e (last rs) = Inl z"
    using assms(1) by (simp_all add: trace_ok_def)
  have "q \<notin> set (butlast rs)"
    using bl assms(3) by (auto simp: list_all_iff returned_def)
  moreover have "set rs = set (butlast rs) \<union> {last rs}"
    using ne by (metis append_butlast_last_id list.simps(15) set_append Un_insert_right
        sup_bot.right_neutral list.set(1))
  ultimately have "q = last rs" using assms(2) by auto
  then show ?thesis using Some la assms(3) bl by simp
qed

subsection \<open>Unknown channel identifiers\<close>

lemma start_date_log_frame:
  "get_statistics_start_date (w\<lparr>errors_logged := l\<rparr>) sid = get_statistics_start_date w sid"
  by (simp add: get_statistics_start_date_def get_last_statistics_def)

lemma baseline_log_frame:
  "spec_baseline (w\<lparr>errors_logged := l\<rparr>) sid = spec_baseline w sid"
  by (simp add: spec_baseline_def)

lemma existing_log_frame:
  "get_existing_statistics (w\<lparr>errors_logged := l\<rparr>) sid = get_existing_statistics w sid"
  by (simp add: get_existing_statistics_def statistics_during_period_def)

lemma async_add_log_frame:
  "async_add_external_statistics sid es (w\<lparr>errors_logged := l\<rparr>) =
     (async_add_external_statistics sid es w)\<lparr>errors_logged := l\<rparr>"
  by (simp add: async_add_external_statistics_def Let_def)

lemma process_and_store_log_frame:
  "process_and_store_statistics sid mp obis ts (w\<lparr>errors_logged := l\<rparr>) =
     apsnd (\<lambda>v. v\<lparr>errors_logged := l\<rparr>) (process_and_store_statistics sid mp obis ts w)"
  by (simp add: process_and_store_statistics_def store_statistics_def existing_log_frame
      async_add_log_frame Let_def split: sum.splits)

lemma update_statistics_log_frame:
  "update_statistics e mp obis (w\<lparr>errors_logged := l\<rparr>) =
     apsnd (\<lambda>v. v\<lparr>errors_logged := l\<rparr>) (update_statistics e mp obis w)"
proof -
  have sw: "w\<lparr>errors_logged := l, requests := rq\<rparr> = w\<lparr>requests := rq, errors_logged := l\<rparr>"
    for rq by simp
  show ?thesis
    by (simp add: update_statistics_def start_date_log_frame fetch_hourly_data_def Let_def sw
        process_and_store_log_frame get_statistics_start_date_baseline baseline_log_frame
        split: sum.splits)
qed

lemma get_current_total_log_frame:
  "get_current_total e mp obis (w\<lparr>errors_logged := l\<rparr>) =
     apsnd (\<lambda>v. v\<lparr>errors_logged := l\<rparr>) (get_current_total e mp obis w)"
  by (simp add: get_current_total_def Let_def split: sum.splits)

lemma process_sensors_ignores_log:
  "fst (process_sensors e mp xs vals (w\<lparr>errors_logged := l\<rparr>)) =
     fst (process_sensors e mp xs vals w)
   \<and> recorder (snd (process_sensors e mp xs vals (w\<lparr>errors_logged := l\<rparr>))) =
     recorder (snd (process_sensors e mp xs vals w))
   \<and> requests (snd (process_sensors e mp xs vals (w\<lparr>errors_logged := l\<rparr>))) =
     requests (snd (process_sensors e mp xs vals w))"
proof (induction xs arbitrary: vals w l)
  case Nil
  show ?case by simp
next
  case (Cons s xs)
  show ?case
  proof (cases "map_of SENSOR_TYPES s")
    case None
    have a: "process_sensors e mp (s # xs) vals (w\<lparr>errors_logged := l\<rparr>) =
        process_sensors e mp xs vals (w\<lparr>errors_logged := l @ [UnknownSensorType s mp]\<rparr>)"
      using None by simp
    have b: "process_sensors e mp (s # xs) vals w =
        process_sensors e mp xs vals
          (w\<lparr>errors_logged := errors_logged w @ [UnknownSensorType s mp]\<rparr>)"
      using None by simp
    show ?thesis
      unfolding a b
      using Cons.IH [where vals = vals and w = w and l = "l @ [UnknownSensorType s mp]"]
        Cons.IH [where vals = vals and w = w
          and l = "errors_logged w @ [UnknownSensorType s mp]"]
      by simp
  next
    case (Some cfg)
    obtain r1 w1 where u: "update_statistics e mp (obis_code cfg) w = (r1, w1)"
      by (cases "update_statistics e mp (obis_code cfg) w")
    have u': "update_statistics e mp (obis_code cfg) (w\<lparr>errors_logged := l\<rparr>) =
        (r1, w1\<lparr>errors_logged := l\<rparr>)"
      using u by (simp add: update_statistics_log_frame)
    show ?thesis
    proof (cases r1)
      case (Inl x)
      then show ?thesis using Some u u' by (simp add: Let_def)
    next
      case r1: (Inr u1)
      obtain r2 w2 where g: "get_current_total e mp (obis_code cfg) w1 = (r2, w2)"
        by (cases "get_current_total e mp (obis_code cfg) w1")
      have g': "get_current_total e mp (obis_code cfg) (w1\<lparr>errors_logged := l\<rparr>) =
          (r2, w2\<lparr>errors_logged := l\<rparr>)"
        using g by (simp add: get_current_total_log_frame)
      show ?thesis
      proof (cases r2)
        case (Inl x)
        then show ?thesis using Some u u' r1 g g' by (simp add: Let_def)
      next
        case (Inr total)
        then show ?thesis
          using Some u u' r1 g g'
            Cons.IH [where vals = "AList.update (obis_code cfg) total vals" and w = w2
              and l = l]
          by (simp add: Let_def)
      qed
    qed
  qed
qed

lemma process_sensors_append:
  "process_sensors e mp (xs @ ys) vals w =
     (case process_sensors e mp xs vals w of
        (Inl x, w1) \<Rightarrow> (Inl x, w1)
      | (Inr v1, w1) \<Rightarrow> process_sensors e mp ys v1 w1)"
proof (induction xs arbitrary: vals w)
  case Nil
  show ?case by simp
next
  case (Cons s xs)
  show ?case
    by (simp add: Cons.IH Let_def split: option.splits prod.splits sum.splits)
qed

lemma process_sensors_log_grows:
  "\<exists>l. errors_logged (snd (process_sensors e mp xs vals w)) = errors_logged w @ l"
proof (induction xs arbitrary: vals w)
  case Nil
  show ?case by simp
next
  case (Cons s xs)
  show ?case
  proof (cases "map_of SENSOR_TYPES s")
    case None
    obtain l where "errors_logged (snd (process_sensors e mp xs vals
        (w\<lparr>errors_logged := errors_logged w @ [UnknownSensorType s mp]\<rparr>))) =
        (errors_logged w @ [UnknownSensorType s mp]) @ l"
      using Cons.IH [where vals = vals
          and w = "w\<lparr>errors_logged := errors_logged w @ [UnknownSensorType s mp]\<rparr>"]
      by auto
    then show ?thesis using None by simp
  next
    case (Some cfg)
    obtain r1 w1 where u: "update_statistics e mp (obis_code cfg) w = (r1, w1)"
      by (cases "update_statistics e mp (obis_code cfg) w")
    from update_statistics_trace [OF u] have e1: "errors_logged w1 = errors_logged w"
      by blast
    show ?thesis
    proof (cases r1)
      case (Inl x)
      then show ?thesis using Some u e1 by (simp add: Let_def)
    next
      case r1: (Inr u1)
      obtain r2 w2 where g: "get_current_total e mp (obis_code cfg) w1 = (r2, w2)"
        by (cases "get_current_total e mp (obis_code cfg) w1")
      from get_current_total_trace [OF g] have e2: "errors_logged w2 = errors_logged w1"
        by blast
      show ?thesis
      proof (cases r2)
        case (Inl x)
        then show ?thesis using Some u r1 g e1 e2 by (simp add: Let_def)
      next
        case (Inr total)
        then show ?thesis
          using Some u r1 g e1 e2
            Cons.IH [where vals = "AList.update (obis_code cfg) total vals" and w = w2]
          by (simp add: Let_def)
      qed
    qed
  qed
qed

text \<open>
  Claim C9. A channel identifier that the catalog does not hold is skipped: whatever
  identifiers stand before and after it in the list of the metering point, the outcome of
  processing the metering point (its values or the exception raised), the recorder and
  the calls to the remote service are those of the list without it, so it raises nothing
  and the identifiers after it are processed; and when the identifiers before it raise
  nothing, the error log holds the message that names it and the metering point.
\<close>

theorem unknown_sensor_type_skipped:
  assumes "map_of SENSOR_TYPES sensor_type = None"
  shows "fst (process_metering_point e mp (before @ sensor_type # after) w) =
           fst (process_metering_point e mp (before @ after) w)
    \<and> recorder (snd (process_metering_point e mp (before @ sensor_type # after) w)) =
        recorder (snd (process_metering_point e mp (before @ after) w))
    \<and> requests (snd (process_metering_point e mp (before @ sensor_type # after) w)) =
        requests (snd (process_metering_point e mp (before @ after) w))
    \<and> ((\<exists>v. fst (process_metering_point e mp before w) = Inr v) \<longrightarrow>
         UnknownSensorType sensor_type mp \<in>
           set (errors_logged (snd (process_metering_point e mp (before @ sensor_type # after) w))))"
proof -
  obtain r1 w1 where p: "process_sensors e mp before [] w = (r1, w1)"
    by (cases "process_sensors e mp before [] w")
  show ?thesis
  proof (cases r1)
    case (Inl x)
    then show ?thesis using p
      by (simp add: process_metering_point_def process_sensors_append)
  next
    case (Inr v1)
    let ?w2 = "w1\<lparr>errors_logged := errors_logged w1 @ [UnknownSensorType sensor_type mp]\<rparr>"
    have a: "process_sensors e mp (before @ sensor_type # after) [] w =
        process_sensors e mp after v1 ?w2"
      using p Inr assms by (simp add: process_sensors_append)
    have b: "process_sensors e mp (before @ after) [] w = process_sensors e mp after v1 w1"
      using p Inr by (simp add: process_sensors_append)
    obtain l where "errors_logged (snd (process_sensors e mp after v1 ?w2)) =
        errors_logged ?w2 @ l"
      using process_sensors_log_grows by blast
    then have c: "UnknownSensorType sensor_type mp \<in>
        set (errors_logged (snd (process_sensors e mp after v1 ?w2)))"
      by simp
    show ?thesis
      using a b c process_sensors_ignores_log [where e = e and mp = mp and xs = after
          and vals = v1 and w = w1
          and l = "errors_logged w1 @ [UnknownSensorType sensor_type mp]"]
      by (simp add: process_metering_point_def)
  qed
qed

lemma catalog_unknown: "map_of SENSOR_TYPES ''water_consumption'' = None"
  by (simp add: SENSOR_TYPES_def)

lemma sample_metering_point_run:
  "process_metering_point
     (sample_env (\<lambda>q. Inr [\<lparr>started_at = 1700006400, val = 3 / 2\<rparr>,
                           \<lparr>started_at = 1700010000, val = 2\<rparr>]) 1700100000)
     ''LU000001''
     ([''electricity_consumption_active''] @ ''water_consumption''
        # [''electricity_consumption_reactive''])
     empty_world
   = (Inr [(ELEC_CONSUMPTION_ACTIVE, Some (7 / 2)), (ELEC_CONSUMPTION_REACTIVE, Some (7 / 2))],
      \<lparr>recorder =
         [(''leneda:lu000001_1_1_1_29_0'',
           [\<lparr>row_start = 1700006400, row_end = 1700010000, row_sum = Some (3 / 2)\<rparr>,
            \<lparr>row_start = 1700010000, row_end = 1700013600, row_sum = Some (7 / 2)\<rparr>]),
          (''leneda:lu000001_1_1_3_29_0'',
           [\<lparr>row_start = 1700006400, row_end = 1700010000, row_sum = Some (3 / 2)\<rparr>,
            \<lparr>row_start = 1700010000, row_end = 1700013600, row_sum = Some (7 / 2)\<rparr>])],
       requests =
         [\<lparr>req_metering_point = ''LU000001'', req_obis = ELEC_CONSUMPTION_ACTIVE,
           req_start = 946598400, req_end = 1700100000,
           req_granularity = ''Hour'', req_mode = ''Accumulation''\<rparr>,
          \<lparr>req_metering_point = ''LU000001'', req_obis = ELEC_CONSUMPTION_ACTIVE,
           req_start = 1672531200, req_end = 1700100000,
           req_granularity = ''Infinite'', req_mode = ''Accumulation''\<rparr>,
          \<lparr>req_metering_point = ''LU000001'', req_obis = ELEC_CONSUMPTION_REACTIVE,
           req_start = 946598400, req_end = 1700100000,
           req_granularity = ''Hour'', req_mode = ''Accumulation''\<rparr>,
          \<lparr>req_metering_point = ''LU000001'', req_obis = ELEC_CONSUMPTION_REACTIVE,
           req_start = 1672531200, req_end = 1700100000,
           req_granularity = ''Infinite'', req_mode = ''Accumulation''\<rparr>],
       errors_logged = [UnknownSensorType ''water_consumption'' ''LU000001'']\<rparr>)"
  by (simp add: tick_defs sample_statistic_id sample_statistic_id_reactive)

theorem unknown_sensor_type_skipped_witness:
  "fst (process_metering_point
     (sample_env (\<lambda>q. Inr [\<lparr>started_at = 1700006400, val = 3 / 2\<rparr>,
                           \<lparr>started_at = 1700010000, val = 2\<rparr>]) 1700100000)
     ''LU000001''
     ([''electricity_consumption_active''] @ [''electricity_consumption_reactive''])
     empty_world)
   = Inr [(ELEC_CONSUMPTION_ACTIVE, Some (7 / 2)), (ELEC_CONSUMPTION_REACTIVE, Some (7 / 2))]
   \<and> UnknownSensorType ''water_consumption'' ''LU000001'' \<in>
       set (errors_logged (snd (process_metering_point
         (sample_env (\<lambda>q. Inr [\<lparr>started_at = 1700006400, val = 3 / 2\<rparr>,
                               \<lparr>started_at = 1700010000, val = 2\<rparr>]) 1700100000)
         ''LU000001''
         ([''electricity_consumption_active''] @ ''water_consumption''
            # [''electricity_consumption_reactive''])
         empty_world)))"
  using unknown_sensor_type_skipped [OF catalog_unknown,
      of "sample_env (\<lambda>q. Inr [\<lparr>started_at = 1700006400, val = 3 / 2\<rparr>,
                           \<lparr>started_at = 1700010000, val = 2\<rparr>]) 1700100000"
      "''LU000001''" "[''electricity_consumption_active'']"
      "[''electricity_consumption_reactive'']" empty_world]
    sample_metering_point_run
  by simp

subsection \<open>The recorder after a run of calls\<close>

lemma replay_Nil [simp]: "replay e [] d = d"
  by (simp add: replay_def)

lemma replay_append: "replay e (rs1 @ rs2) d = replay e rs2 (replay e rs1 d)"
  by (simp add: replay_def)

lemma replay_single: "replay e [q] d = reconcile_call e d q"
  by (simp add: replay_def)

lemma replay_failed_last:
  "client e q = Inl x \<Longrightarrow> replay e (rs @ [q]) d = replay e rs d"
  by (simp add: replay_append replay_single reconcile_call_def)

lemma process_and_store_recorder:
  "recorder (snd (process_and_store_statistics sid mp obis ts w)) =
     recorder (snd (process_and_store_statistics sid mp obis ts (store_only (recorder w))))"
  by (simp add: process_and_store_statistics_def store_statistics_def
      get_existing_statistics_def statistics_during_period_def
      async_add_external_statistics_def store_only_def Let_def split: sum.splits)

lemma update_statistics_recorder:
  assumes "update_statistics e mp obis w = (res, w')"
  shows "\<exists>rs. requests w' = requests w @ rs \<and> recorder w' = replay e rs (recorder w)"
proof -
  let ?sid = "create_statistic_id mp (obis_value e obis)"
  let ?b = "spec_baseline w ?sid"
  let ?req = "\<lparr>req_metering_point = mp, req_obis = obis, req_start = ?b - one_day,
            req_end = now e, req_granularity = ''Hour'', req_mode = ''Accumulation''\<rparr>"
  let ?w1 = "w\<lparr>requests := requests w @ [?req]\<rparr>"
  show ?thesis
  proof (cases "now e - one_day < ?b")
    case True
    then have "w' = w"
      using assms
      by (simp add: update_statistics_def get_statistics_start_date_baseline Let_def)
    then show ?thesis by simp
  next
    case nb: False
    show ?thesis
    proof (cases "client e ?req")
      case (Inl x)
      then have "w' = ?w1"
        using assms nb
        by (simp add: update_statistics_def get_statistics_start_date_baseline Let_def
            fetch_hourly_data_def)
      then have "requests w' = requests w @ [?req] \<and>
          recorder w' = replay e [?req] (recorder w)"
        using Inl by (simp add: replay_single reconcile_call_def)
      then show ?thesis by blast
    next
      case (Inr series)
      show ?thesis
      proof (cases "series = []")
        case True
        then have "w' = ?w1"
          using assms nb Inr
          by (simp add: update_statistics_def get_statistics_start_date_baseline Let_def
              fetch_hourly_data_def)
        then have "requests w' = requests w @ [?req] \<and>
            recorder w' = replay e [?req] (recorder w)"
          using Inr True by (simp add: replay_single reconcile_call_def)
        then show ?thesis by blast
      next
        case False
        have w': "w' = snd (process_and_store_statistics ?sid mp obis series ?w1)"
          using assms nb Inr False
          by (simp add: update_statistics_def get_statistics_start_date_baseline Let_def
              fetch_hourly_data_def)
        obtain w2 where
          st: "process_and_store_statistics ?sid mp obis series ?w1 = (Inr (), w2)"
          and rq: "requests w2 = requests ?w1"
          using process_and_store_returns by blast
        have r1: "requests w' = requests w @ [?req]"
          using w' st rq by simp
        have "recorder w' =
            recorder (snd (process_and_store_statistics ?sid mp obis series
              (store_only (recorder ?w1))))"
          unfolding w' by (rule process_and_store_recorder)
        then have r2: "recorder w' = replay e [?req] (recorder w)"
          using Inr False by (simp add: replay_single reconcile_call_def)
        show ?thesis using r1 r2 by blast
      qed
    qed
  qed
qed

lemma get_current_total_recorder:
  assumes "get_current_total e mp obis w = (res, w')"
  shows "\<exists>rs. requests w' = requests w @ rs \<and> recorder w' = replay e rs (recorder w)"
proof -
  let ?req = "\<lparr>req_metering_point = mp, req_obis = obis, req_start = year_start e,
            req_end = now e, req_granularity = ''Infinite'', req_mode = ''Accumulation''\<rparr>"
  have "w' = w\<lparr>requests := requests w @ [?req]\<rparr>"
    using assms
    by (cases "client e ?req") (auto simp: get_current_total_def Let_def split: if_splits)
  then have "requests w' = requests w @ [?req] \<and> recorder w' = replay e [?req] (recorder w)"
    by (simp add: replay_single reconcile_call_def split: sum.splits)
  then show ?thesis by blast
qed

lemma process_sensors_recorder:
  "process_sensors e mp xs vals w = (res, w') \<Longrightarrow>
   \<exists>rs. requests w' = requests w @ rs \<and> recorder w' = replay e rs (recorder w)"
proof (induction xs arbitrary: vals w)
  case Nil
  then show ?case by auto
next
  case (Cons s xs)
  show ?case
  proof (cases "map_of SENSOR_TYPES s")
    case None
    then have "process_sensors e mp xs vals
        (w\<lparr>errors_logged := errors_logged w @ [UnknownSensorType s mp]\<rparr>) = (res, w')"
      using Cons.prems by simp
    from Cons.IH [OF this] show ?thesis by simp
  next
    case (Some cfg)
    obtain r1 w1 where u: "update_statistics e mp (obis_code cfg) w = (r1, w1)"
      by (cases "update_statistics e mp (obis_code cfg) w")
    from update_statistics_recorder [OF u] obtain rs1 where
      q1: "requests w1 = requests w @ rs1" and t1: "recorder w1 = replay e rs1 (recorder w)"
      by blast
    show ?thesis
    proof (cases r1)
      case (Inl x)
      then have "w' = w1"
        using Cons.prems Some u by (simp add: Let_def)
      then show ?thesis using q1 t1 by auto
    next
      case r1: (Inr u1)
      obtain r2 w2 where g: "get_current_total e mp (obis_code cfg) w1 = (r2, w2)"
        by (cases "get_current_total e mp (obis_code cfg) w1")
      from get_current_total_recorder [OF g] obtain rs2 where
        q2: "requests w2 = requests w1 @ rs2" and t2: "recorder w2 = replay e rs2 (recorder w1)"
        by blast
      have q12: "requests w2 = requests w @ (rs1 @ rs2)" using q1 q2 by simp
      have t12: "recorder w2 = replay e (rs1 @ rs2) (recorder w)"
        using t1 t2 by (simp add: replay_append)
      show ?thesis
      proof (cases r2)
        case (Inl x)
        then have "w' = w2"
          using Cons.prems Some u r1 g by (simp add: Let_def)
        then show ?thesis using q12 t12 by blast
      next
        case r2: (Inr total)
        have "process_sensors e mp xs (AList.update (obis_code cfg) total vals) w2 = (res, w')"
          using Cons.prems Some u r1 g r2 by (simp add: Let_def)
        from Cons.IH [OF this] obtain rs3 where
          q3: "requests w' = requests w2 @ rs3" and t3: "recorder w' = replay e rs3 (recorder w2)"
          by blast
        have "requests w' = requests w @ ((rs1 @ rs2) @ rs3)" using q12 q3 by simp
        moreover have "recorder w' = replay e ((rs1 @ rs2) @ rs3) (recorder w)"
          using t12 t3 by (simp add: replay_append)
        ultimately show ?thesis by blast
      qed
    qed
  qed
qed

lemma update_loop_recorder:
  "update_loop e mps data w = (res, w') \<Longrightarrow>
   \<exists>rs. requests w' = requests w @ rs \<and> recorder w' = replay e rs (recorder w)"
proof (induction mps arbitrary: data w)
  case Nil
  then show ?case by auto
next
  case (Cons m mps)
  obtain mp sensors where m: "m = (mp, sensors)" by (cases m)
  obtain r1 w1 where p: "process_sensors e mp sensors [] w = (r1, w1)"
    by (cases "process_sensors e mp sensors [] w")
  from process_sensors_recorder [OF p] obtain rs1 where
    q1: "requests w1 = requests w @ rs1" and t1: "recorder w1 = replay e rs1 (recorder w)"
    by blast
  show ?case
  proof (cases r1)
    case (Inl x)
    then have "w' = w1"
      using Cons.prems m p by (simp add: process_metering_point_def)
    then show ?thesis using q1 t1 by auto
  next
    case r1: (Inr meter_data)
    have "update_loop e mps (AList.update mp meter_data data) w1 = (res, w')"
      using Cons.prems m p r1 by (simp add: process_metering_point_def)
    from Cons.IH [OF this] obtain rs2 where
      q2: "requests w' = requests w1 @ rs2" and t2: "recorder w' = replay e rs2 (recorder w1)"
      by blast
    have "requests w' = requests w @ (rs1 @ rs2)" using q1 q2 by simp
    moreover have "recorder w' = replay e (rs1 @ rs2) (recorder w)"
      using t1 t2 by (simp add: replay_append)
    ultimately show ?thesis by blast
  qed
qed

lemma async_update_data_recorder:
  assumes "async_update_data e mps w = (res, w')"
  shows "recorder w' = replay e (new_requests w w') (recorder w)"
proof -
  obtain r1 w1 where l: "update_loop e mps [] w = (r1, w1)"
    by (cases "update_loop e mps [] w")
  from update_loop_recorder [OF l] obtain rs where
    q: "requests w1 = requests w @ rs" and t: "recorder w1 = replay e rs (recorder w)"
    by blast
  have "recorder w' = recorder w1 \<and> requests w' = requests w1"
    using assms l by (auto simp: async_update_data_def split: sum.splits if_splits)
  then show ?thesis using q t by (simp add: new_requests_def)
qed

subsection \<open>The error log after a run\<close>

lemma logged_unknown_mono:
  "logged_unknown mp xs m \<Longrightarrow> set xs \<subseteq> set ys \<Longrightarrow> logged_unknown mp ys m"
  by (cases m) (auto simp: logged_unknown_def)

lemma process_sensors_log:
  "process_sensors e mp xs vals w = (res, w') \<Longrightarrow>
   \<exists>l. errors_logged w' = errors_logged w @ l \<and> list_all (logged_unknown mp xs) l"
proof (induction xs arbitrary: vals w)
  case Nil
  then show ?case by auto
next
  case (Cons s xs)
  have mono: "list_all (logged_unknown mp xs) l \<Longrightarrow> list_all (logged_unknown mp (s # xs)) l"
    for l
    by (auto simp: list_all_iff intro: logged_unknown_mono)
  show ?case
  proof (cases "map_of SENSOR_TYPES s")
    case None
    then have "process_sensors e mp xs vals
        (w\<lparr>errors_logged := errors_logged w @ [UnknownSensorType s mp]\<rparr>) = (res, w')"
      using Cons.prems by simp
    from Cons.IH [OF this] obtain l where
      l: "errors_logged w' = (errors_logged w @ [UnknownSensorType s mp]) @ l"
      and a: "list_all (logged_unknown mp xs) l"
      by auto
    have "logged_unknown mp (s # xs) (UnknownSensorType s mp)"
      using None by (simp add: logged_unknown_def)
    then have "list_all (logged_unknown mp (s # xs)) (UnknownSensorType s mp # l)"
      using mono [OF a] by simp
    then show ?thesis using l by (intro exI [of _ "UnknownSensorType s mp # l"]) simp
  next
    case (Some cfg)
    obtain r1 w1 where u: "update_statistics e mp (obis_code cfg) w = (r1, w1)"
      by (cases "update_statistics e mp (obis_code cfg) w")
    from update_statistics_trace [OF u] have e1: "errors_logged w1 = errors_logged w"
      by blast
    show ?thesis
    proof (cases r1)
      case (Inl x)
      then have "w' = w1" using Cons.prems Some u by (simp add: Let_def)
      then show ?thesis using e1 by (intro exI [of _ "[]"]) simp
    next
      case r1: (Inr u1)
      obtain r2 w2 where g: "get_current_total e mp (obis_code cfg) w1 = (r2, w2)"
        by (cases "get_current_total e mp (obis_code cfg) w1")
      from get_current_total_trace [OF g] have e2: "errors_logged w2 = errors_logged w1"
        by blast
      show ?thesis
      proof (cases r2)
        case (Inl x)
        then have "w' = w2" using Cons.prems Some u r1 g by (simp add: Let_def)
        then show ?thesis using e1 e2 by (intro exI [of _ "[]"]) simp
      next
        case r2: (Inr total)
        have "process_sensors e mp xs (AList.update (obis_code cfg) total vals) w2 = (res, w')"
          using Cons.prems Some u r1 g r2 by (simp add: Let_def)
        from Cons.IH [OF this] obtain l where
          "errors_logged w' = errors_logged w2 @ l" and "list_all (logged_unknown mp xs) l"
          by auto
        then show ?thesis using e1 e2 mono by (intro exI [of _ l]) simp
      qed
    qed
  qed
qed

lemma update_loop_log:
  "update_loop e mps data w = (res, w') \<Longrightarrow>
   \<exists>l. errors_logged w' = errors_logged w @ l \<and> list_all (unknown_message mps) l"
proof (induction mps arbitrary: data w)
  case Nil
  then show ?case by auto
next
  case (Cons m mps)
  obtain mp sensors where m: "m = (mp, sensors)" by (cases m)
  have here: "list_all (logged_unknown mp sensors) l \<Longrightarrow> list_all (unknown_message (m # mps)) l"
    for l
    by (auto simp: list_all_iff unknown_message_def m)
  have later: "list_all (unknown_message mps) l \<Longrightarrow> list_all (unknown_message (m # mps)) l"
    for l
    by (auto simp: list_all_iff unknown_message_def)
  obtain r1 w1 where p: "process_sensors e mp sensors [] w = (r1, w1)"
    by (cases "process_sensors e mp sensors [] w")
  from process_sensors_log [OF p] obtain l1 where
    q1: "errors_logged w1 = errors_logged w @ l1" and t1: "list_all (logged_unknown mp sensors) l1"
    by blast
  show ?case
  proof (cases r1)
    case (Inl x)
    then have "w' = w1"
      using Cons.prems m p by (simp add: process_metering_point_def)
    then show ?thesis using q1 here [OF t1] by auto
  next
    case r1: (Inr meter_data)
    have "update_loop e mps (AList.update mp meter_data data) w1 = (res, w')"
      using Cons.prems m p r1 by (simp add: process_metering_point_def)
    from Cons.IH [OF this] obtain l2 where
      q2: "errors_logged w' = errors_logged w1 @ l2" and t2: "list_all (unknown_message mps) l2"
      by blast
    have "errors_logged w' = errors_logged w @ (l1 @ l2)" using q1 q2 by simp
    moreover have "list_all (unknown_message (m # mps)) (l1 @ l2)"
      using here [OF t1] later [OF t2] by simp
    ultimately show ?thesis by blast
  qed
qed

subsection \<open>Failures of the remote service\<close>

lemma async_update_data_effects:
  assumes "async_update_data e mps w = (res, w')"
  shows "\<exists>x l. trace_ok e x (new_requests w w')
    \<and> raised res =
        map_option (\<lambda>y. if y = UnauthorizedException then ConfigEntryAuthFailed else y) x
    \<and> recorder w' = replay e (new_requests w w') (recorder w)
    \<and> list_all (unknown_message mps) l
    \<and> new_errors w w' =
        l @ (if x = Some UnauthorizedException then [AuthenticationError] else [])"
proof -
  obtain r1 w1 where l: "update_loop e mps [] w = (r1, w1)"
    by (cases "update_loop e mps [] w")
  from update_loop_trace [OF l] obtain rs where
    q: "requests w1 = requests w @ rs" and t: "trace_ok e (raised r1) rs"
    by blast
  from update_loop_log [OF l] obtain l1 where
    g: "errors_logged w1 = errors_logged w @ l1" and u: "list_all (unknown_message mps) l1"
    by blast
  have rc: "recorder w' = replay e (new_requests w w') (recorder w)"
    by (rule async_update_data_recorder [OF assms])
  show ?thesis
  proof (cases r1)
    case (Inl y)
    show ?thesis
    proof (cases "y = UnauthorizedException")
      case True
      then have "res = Inl ConfigEntryAuthFailed
          \<and> w' = w1\<lparr>errors_logged := errors_logged w1 @ [AuthenticationError]\<rparr>"
        using assms l Inl by (simp add: async_update_data_def)
      then show ?thesis using q t g u rc Inl True
        by (intro exI [of _ "Some y"] exI [of _ l1])
          (simp add: new_requests_def new_errors_def raised_def)
    next
      case False
      then have "res = Inl y \<and> w' = w1"
        using assms l Inl by (simp add: async_update_data_def)
      then show ?thesis using q t g u rc Inl False
        by (intro exI [of _ "Some y"] exI [of _ l1])
          (simp add: new_requests_def new_errors_def raised_def)
    qed
  next
    case (Inr data)
    then have "res = Inr data \<and> w' = w1"
      using assms l by (simp add: async_update_data_def)
    then show ?thesis using q t g u rc Inr
      by (intro exI [of _ None] exI [of _ l1])
        (simp add: new_requests_def new_errors_def raised_def)
  qed
qed

lemma new_errors_last:
  "new_errors w w' = l @ [m] \<Longrightarrow> last (errors_logged w') = m"
  by (metis new_errors_def append_is_Nil_conv drop_eq_Nil last_drop last_snoc not_Cons_self2
      linorder_not_le)

text \<open>
  Claim C4, as stated, fails. The first channel of the metering point is fetched and its
  two entries are stored; the fetch of the second channel is rejected as unauthorized.
  The tick ends with \<^verbatim>\<open>ConfigEntryAuthFailed\<close>, but the recorder, empty before the
  tick, holds the entries of the first channel that this tick appended.
\<close>

theorem auth_failure_keeps_earlier_entries:
  "fst (async_update_data
     (sample_env (\<lambda>q. if req_obis q = ELEC_CONSUMPTION_ACTIVE
        then Inr [\<lparr>started_at = 1700006400, val = 3 / 2\<rparr>, \<lparr>started_at = 1700010000, val = 2\<rparr>]
        else Inl UnauthorizedException) 1700100000)
     [(''LU000001'', [''electricity_consumption_active'', ''electricity_consumption_reactive''])]
     empty_world)
   = Inl ConfigEntryAuthFailed
   \<and> recorder empty_world = []
   \<and> recorder (snd (async_update_data
     (sample_env (\<lambda>q. if req_obis q = ELEC_CONSUMPTION_ACTIVE
        then Inr [\<lparr>started_at = 1700006400, val = 3 / 2\<rparr>, \<lparr>started_at = 1700010000, val = 2\<rparr>]
        else Inl UnauthorizedException) 1700100000)
     [(''LU000001'', [''electricity_consumption_active'', ''electricity_consumption_reactive''])]
     empty_world))
   = [(''leneda:lu000001_1_1_1_29_0'',
         [\<lparr>row_start = 1700006400, row_end = 1700010000, row_sum = Some (3 / 2)\<rparr>,
          \<lparr>row_start = 1700010000, row_end = 1700013600, row_sum = Some (7 / 2)\<rparr>])]"
  by (simp add: sample_tick_unauthorized) (simp add: empty_world_def)

text \<open>
  Claim C4, amended. When a call of the tick to the remote service is rejected as
  unauthorized, the tick aborts at that call: it is the last call of the tick and every
  call before it returned; no result map is returned and \<^verbatim>\<open>ConfigEntryAuthFailed\<close> is
  raised to the host; the last message logged is the authentication error, and the
  messages logged before it in the tick only name identifiers of the configuration that
  the catalog does not hold. The recorder after the tick is the recorder before it with
  the hourly calls made before the failing one reconciled and stored in order: what the
  channels before the failure appended is kept, not taken back, and nothing is fetched or
  reconciled after the failure.
\<close>

theorem unauthorized_aborts_tick:
  assumes "async_update_data e metering_points w = (res, w')"
    and "q \<in> set (new_requests w w')"
    and "client e q = Inl UnauthorizedException"
  shows "res = Inl ConfigEntryAuthFailed
    \<and> last (new_requests w w') = q
    \<and> list_all (returned e) (butlast (new_requests w w'))
    \<and> last (errors_logged w') = AuthenticationError
    \<and> recorder w' = replay e (butlast (new_requests w w')) (recorder w)
    \<and> last (new_errors w w') = AuthenticationError
    \<and> list_all (unknown_message metering_points) (butlast (new_errors w w'))"
proof -
  obtain x l where t: "trace_ok e x (new_requests w w')"
    and r: "raised res =
        map_option (\<lambda>y. if y = UnauthorizedException then ConfigEntryAuthFailed else y) x"
    and rc: "recorder w' = replay e (new_requests w w') (recorder w)"
    and u: "list_all (unknown_message metering_points) l"
    and g: "new_errors w w' =
        l @ (if x = Some UnauthorizedException then [AuthenticationError] else [])"
    using async_update_data_effects [OF assms(1)] by blast
  from trace_ok_failing_call [OF t assms(2) assms(3)]
  have x: "x = Some UnauthorizedException" and la: "last (new_requests w w') = q"
    and bl: "list_all (returned e) (butlast (new_requests w w'))"
    by simp_all
  have "raised res = Some ConfigEntryAuthFailed" using r x by simp
  then have res: "res = Inl ConfigEntryAuthFailed"
    by (cases res) (simp_all add: raised_def)
  have ne: "new_requests w w' \<noteq> []" using assms(2) by auto
  then have "new_requests w w' = butlast (new_requests w w') @ [q]"
    using la by (metis append_butlast_last_id)
  then have "replay e (new_requests w w') (recorder w) =
      replay e (butlast (new_requests w w')) (recorder w)"
    using replay_failed_last [OF assms(3)] by metis
  then have rc': "recorder w' = replay e (butlast (new_requests w w')) (recorder w)"
    using rc by simp
  have g': "new_errors w w' = l @ [AuthenticationError]" using g x by simp
  have "last (errors_logged w') = AuthenticationError"
    by (rule new_errors_last [OF g'])
  then show ?thesis using res la bl rc' g' u by simp
qed

theorem unauthorized_aborts_tick_witness:
  "fst (async_update_data
     (sample_env (\<lambda>q. if req_obis q = ELEC_CONSUMPTION_ACTIVE
        then Inr [\<lparr>started_at = 1700006400, val = 3 / 2\<rparr>, \<lparr>started_at = 1700010000, val = 2\<rparr>]
        else Inl UnauthorizedException) 1700100000)
     [(''LU000001'', [''electricity_consumption_active'', ''electricity_consumption_reactive''])]
     empty_world)
   = Inl ConfigEntryAuthFailed
   \<and> last (new_requests empty_world (snd (async_update_data
     (sample_env (\<lambda>q. if req_obis q = ELEC_CONSUMPTION_ACTIVE
        then Inr [\<lparr>started_at = 1700006400, val = 3 / 2\<rparr>, \<lparr>started_at = 1700010000, val = 2\<rparr>]
        else Inl UnauthorizedException) 1700100000)
     [(''LU000001'', [''electricity_consumption_active'', ''electricity_consumption_reactive''])]
     empty_world)))
   = \<lparr>req_metering_point = ''LU000001'', req_obis = ELEC_CONSUMPTION_REACTIVE,
       req_start = 946598400, req_end = 1700100000,
       req_granularity = ''Hour'', req_mode = ''Accumulation''\<rparr>
   \<and> replay
     (sample_env (\<lambda>q. if req_obis q = ELEC_CONSUMPTION_ACTIVE
        then Inr [\<lparr>started_at = 1700006400, val = 3 / 2\<rparr>, \<lparr>started_at = 1700010000, val = 2\<rparr>]
        else Inl UnauthorizedException) 1700100000)
     (butlast (new_requests empty_world (snd (async_update_data
     (sample_env (\<lambda>q. if req_obis q = ELEC_CONSUMPTION_ACTIVE
        then Inr [\<lparr>started_at = 1700006400, val = 3 / 2\<rparr>, \<lparr>started_at = 1700010000, val = 2\<rparr>]
        else Inl UnauthorizedException) 1700100000)
     [(''LU000001'', [''electricity_consumption_active'', ''electricity_consumption_reactive''])]
     empty_world))))
     (recorder empty_world)
   = [(''leneda:lu000001_1_1_1_29_0'',
         [\<lparr>row_start = 1700006400, row_end = 1700010000, row_sum = Some (3 / 2)\<rparr>,
          \<lparr>row_start = 1700010000, row_end = 1700013600, row_sum = Some (7 / 2)\<rparr>])]
   \<and> new_errors empty_world (snd (async_update_data
     (sample_env (\<lambda>q. if req_obis q = ELEC_CONSUMPTION_ACTIVE
        then Inr [\<lparr>started_at = 1700006400, val = 3 / 2\<rparr>, \<lparr>started_at = 1700010000, val = 2\<rparr>]
        else Inl UnauthorizedException) 1700100000)
     [(''LU000001'', [''electricity_consumption_active'', ''electricity_consumption_reactive''])]
     empty_world)) = [AuthenticationError]"
proof -
  let ?c = "\<lambda>q. if req_obis q = ELEC_CONSUMPTION_ACTIVE
        then Inr [\<lparr>started_at = 1700006400, val = 3 / 2\<rparr>, \<lparr>started_at = 1700010000, val = 2\<rparr>]
        else Inl UnauthorizedException"
  let ?e = "sample_env ?c 1700100000"
  let ?q = "\<lparr>req_metering_point = ''LU000001'', req_obis = ELEC_CONSUMPTION_REACTIVE,
       req_start = 946598400, req_end = 1700100000,
       req_granularity = ''Hour'', req_mode = ''Accumulation''\<rparr>"
  have a: "?q \<in> set (new_requests empty_world (snd (async_update_data ?e
     [(''LU000001'', [''electricity_consumption_active'', ''electricity_consumption_reactive''])]
     empty_world)))"
    by (simp add: sample_tick_unauthorized new_requests_def) (simp add: empty_world_def)
  have b: "client ?e ?q = Inl UnauthorizedException"
    by (simp add: sample_env_def)
  have c: "recorder (snd (async_update_data ?e
     [(''LU000001'', [''electricity_consumption_active'', ''electricity_consumption_reactive''])]
     empty_world))
   = [(''leneda:lu000001_1_1_1_29_0'',
         [\<lparr>row_start = 1700006400, row_end = 1700010000, row_sum = Some (3 / 2)\<rparr>,
          \<lparr>row_start = 1700010000, row_end = 1700013600, row_sum = Some (7 / 2)\<rparr>])]"
    by (simp add: sample_tick_unauthorized)
  have d: "new_errors empty_world (snd (async_update_data ?e
     [(''LU000001'', [''electricity_consumption_active'', ''electricity_consumption_reactive''])]
     empty_world)) = [AuthenticationError]"
    by (simp add: sample_tick_unauthorized new_errors_def) (simp add: empty_world_def)
  show ?thesis
    using unauthorized_aborts_tick [OF surjective_pairing a b] c d by simp
qed

text \<open>
  Claim C5, as stated, fails. The fetch of the first channel is forbidden. The exception
  is not caught: the tick ends with it, nothing is logged at error level, and the second
  channel is never fetched.
\<close>

theorem forbidden_failure_leaves_the_tick:
  "fst (async_update_data
     (sample_env (\<lambda>q. if req_obis q = ELEC_CONSUMPTION_ACTIVE
        then Inl ForbiddenException
        else Inr [\<lparr>started_at = 1700006400, val = 3 / 2\<rparr>, \<lparr>started_at = 1700010000, val = 2\<rparr>])
        1700100000)
     [(''LU000001'', [''electricity_consumption_active'', ''electricity_consumption_reactive''])]
     empty_world)
   = Inl ForbiddenException
   \<and> snd (async_update_data
     (sample_env (\<lambda>q. if req_obis q = ELEC_CONSUMPTION_ACTIVE
        then Inl ForbiddenException
        else Inr [\<lparr>started_at = 1700006400, val = 3 / 2\<rparr>, \<lparr>started_at = 1700010000, val = 2\<rparr>])
        1700100000)
     [(''LU000001'', [''electricity_consumption_active'', ''electricity_consumption_reactive''])]
     empty_world)
   = \<lparr>recorder = [],
       requests =
         [\<lparr>req_metering_point = ''LU000001'', req_obis = ELEC_CONSUMPTION_ACTIVE,
           req_start = 946598400, req_end = 1700100000,
           req_granularity = ''Hour'', req_mode = ''Accumulation''\<rparr>],
       errors_logged = []\<rparr>"
  by (simp add: sample_tick_forbidden)

text \<open>
  Claim C5, amended. When a call of the tick to the remote service fails as forbidden or
  not found, the coordinator does not catch it: the failing call is the last call of the
  tick and every call before it returned, no result map is returned, and the same
  exception is raised to the host. The coordinator logs nothing for the failure: the
  messages logged in the tick only name identifiers of the configuration that the catalog
  does not hold. The recorder after the tick is the recorder before it with the hourly
  calls made before the failing one reconciled and stored in order, so the channels after
  the failure are not processed.
\<close>

theorem forbidden_propagates:
  assumes "async_update_data e metering_points w = (res, w')"
    and "q \<in> set (new_requests w w')"
    and "client e q = Inl x"
    and "x = ForbiddenException \<or> x = MeteringPointNotFoundException"
  shows "res = Inl x
    \<and> last (new_requests w w') = q
    \<and> list_all (returned e) (butlast (new_requests w w'))
    \<and> recorder w' = replay e (butlast (new_requests w w')) (recorder w)
    \<and> list_all (unknown_message metering_points) (new_errors w w')"
proof -
  obtain y l where t: "trace_ok e y (new_requests w w')"
    and r: "raised res =
        map_option (\<lambda>z. if z = UnauthorizedException then ConfigEntryAuthFailed else z) y"
    and rc: "recorder w' = replay e (new_requests w w') (recorder w)"
    and u: "list_all (unknown_message metering_points) l"
    and g: "new_errors w w' =
        l @ (if y = Some UnauthorizedException then [AuthenticationError] else [])"
    using async_update_data_effects [OF assms(1)] by blast
  from trace_ok_failing_call [OF t assms(2) assms(3)]
  have y: "y = Some x" and la: "last (new_requests w w') = q"
    and bl: "list_all (returned e) (butlast (new_requests w w'))"
    by simp_all
  have nx: "x \<noteq> UnauthorizedException" using assms(4) by auto
  then have "raised res = Some x" using r y by simp
  then have res: "res = Inl x"
    by (cases res) (simp_all add: raised_def)
  have ne: "new_requests w w' \<noteq> []" using assms(2) by auto
  then have "new_requests w w' = butlast (new_requests w w') @ [q]"
    using la by (metis append_butlast_last_id)
  then have "replay e (new_requests w w') (recorder w) =
      replay e (butlast (new_requests w w')) (recorder w)"
    using replay_failed_last [OF assms(3)] by metis
  then have rc': "recorder w' = replay e (butlast (new_requests w w')) (recorder w)"
    using rc by simp
  have "new_errors w w' = l" using g y nx by simp
  then show ?thesis using res la bl rc' u by simp
qed

theorem forbidden_propagates_witness:
  "fst (async_update_data
     (sample_env (\<lambda>q. if req_obis q = ELEC_CONSUMPTION_ACTIVE
        then Inl ForbiddenException
        else Inr [\<lparr>started_at = 1700006400, val = 3 / 2\<rparr>, \<lparr>started_at = 1700010000, val = 2\<rparr>])
        1700100000)
     [(''LU000001'', [''electricity_consumption_active'', ''electricity_consumption_reactive''])]
     empty_world)
   = Inl ForbiddenException
   \<and> last (new_requests empty_world (snd (async_update_data
     (sample_env (\<lambda>q. if req_obis q = ELEC_CONSUMPTION_ACTIVE
        then Inl ForbiddenException
        else Inr [\<lparr>started_at = 1700006400, val = 3 / 2\<rparr>, \<lparr>started_at = 1700010000, val = 2\<rparr>])
        1700100000)
     [(''LU000001'', [''electricity_consumption_active'', ''electricity_consumption_reactive''])]
     empty_world)))
   = \<lparr>req_metering_point = ''LU000001'', req_obis = ELEC_CONSUMPTION_ACTIVE,
       req_start = 946598400, req_end = 1700100000,
       req_granularity = ''Hour'', req_mode = ''Accumulation''\<rparr>
   \<and> recorder (snd (async_update_data
     (sample_env (\<lambda>q. if req_obis q = ELEC_CONSUMPTION_ACTIVE
        then Inl ForbiddenException
        else Inr [\<lparr>started_at = 1700006400, val = 3 / 2\<rparr>, \<lparr>started_at = 1700010000, val = 2\<rparr>])
        1700100000)
     [(''LU000001'', [''electricity_consumption_active'', ''electricity_consumption_reactive''])]
     empty_world)) = []
   \<and> new_errors empty_world (snd (async_update_data
     (sample_env (\<lambda>q. if req_obis q = ELEC_CONSUMPTION_ACTIVE
        then Inl ForbiddenException
        else Inr [\<lparr>started_at = 1700006400, val = 3 / 2\<rparr>, \<lparr>started_at = 1700010000, val = 2\<rparr>])
        1700100000)
     [(''LU000001'', [''electricity_consumption_active'', ''electricity_consumption_reactive''])]
     empty_world)) = []"
proof -
  let ?c = "\<lambda>q. if req_obis q = ELEC_CONSUMPTION_ACTIVE
        then Inl ForbiddenException
        else Inr [\<lparr>started_at = 1700006400, val = 3 / 2\<rparr>, \<lparr>started_at = 1700010000, val = 2\<rparr>]"
  let ?e = "sample_env ?c 1700100000"
  let ?q = "\<lparr>req_metering_point = ''LU000001'', req_obis = ELEC_CONSUMPTION_ACTIVE,
       req_start = 946598400, req_end = 1700100000,
       req_granularity = ''Hour'', req_mode = ''Accumulation''\<rparr>"
  have a: "?q \<in> set (new_requests empty_world (snd (async_update_data ?e
     [(''LU000001'', [''electricity_consumption_active'', ''electricity_consumption_reactive''])]
     empty_world)))"
    by (simp add: sample_tick_forbidden new_requests_def) (simp add: empty_world_def)
  have b: "client ?e ?q = Inl ForbiddenException"
    by (simp add: sample_env_def)
  have c: "ForbiddenException = ForbiddenException \<or>
      ForbiddenException = MeteringPointNotFoundException"
    by simp
  have d: "recorder (snd (async_update_data ?e
     [(''LU000001'', [''electricity_consumption_active'', ''electricity_consumption_reactive''])]
     empty_world)) = []"
    by (simp add: sample_tick_forbidden)
  have f: "new_errors empty_world (snd (async_update_data ?e
     [(''LU000001'', [''electricity_consumption_active'', ''electricity_consumption_reactive''])]
     empty_world)) = []"
    by (simp add: sample_tick_forbidden new_errors_def)
  show ?thesis
    using forbidden_propagates [OF surjective_pairing a b c] d f by simp
qed

end
